theory Spec2Isabelle
  imports Main "HOL-Library.Word" "HOL-Library.Multiset"
begin

unbundle bit_operations_syntax

text \<open>
  The package \<open>uwsgi\<close> is one \<open>http.Handler\<close>: \<open>ServeHTTP\<close> turns an HTTP request into
  the header packet of the uwsgi protocol, connects to the backend through an injected
  dial function, sends the packet and the body, and relays the backend's response. This
  theory embeds \<open>ServeHTTP\<close> of \<open>src/uwsgi.go\<close>; line numbers refer to that file.
\<close>

section \<open>Data model\<close>

text \<open>
  Go strings are byte strings: \<open>string\<close> (a list of 8-bit \<open>char\<close>s), and \<open>len\<close> is
  \<open>length\<close>. A \<open>[]byte\<close> buffer is a list of 8-bit words. Go's \<open>int\<close> is 64 bits wide;
  the sizes below are sums of string lengths, which stay far below \<open>2 ^ 63\<close>, so they are
  \<open>nat\<close>. The one place where the code truncates, \<open>uint16(...)\<close>, is a \<open>16 word\<close>.
\<close>

type_synonym byte = "8 word"

text \<open>The local type \<open>hdr\<close> of \<open>ServeHTTP\<close>.\<close>

record hdr =
  name :: string
  "value" :: string

text \<open>\<open>http.Header\<close> is \<open>map[string][]string\<close>.\<close>

type_synonym Header = "string \<rightharpoonup> string list"

text \<open>
  The fields of \<open>*http.Request\<close> that \<open>ServeHTTP\<close> reads. \<open>LocalAddr\<close> is the value
  stored in the request context under \<open>http.LocalAddrContextKey\<close>, rendered with
  \<open>addr.String()\<close>; \<open>None\<close> when the context holds no \<open>net.Addr\<close> there.
\<close>

record Request =
  Method :: string
  URL_Scheme :: string
  URL_Path :: string
  URL_RawQuery :: string
  Proto :: string
  Header :: Header
  ContentLength :: int
  Host :: string
  RequestURI :: string
  RemoteAddr :: string
  LocalAddr :: "string option"
  Body :: "byte list"

definition maxSize :: nat where
  "maxSize = 2 ^ 16 - 1"

section \<open>Packet encoder\<close>

text \<open>The conversion \<open>uint16(n)\<close> of a Go \<open>int\<close>: the low 16 bits.\<close>

definition uint16 :: "nat \<Rightarrow> 16 word" where
  "uint16 n = of_nat n"

text \<open>
  \<open>binary.LittleEndian.PutUint16\<close>, and \<open>binary.Write\<close> of a \<open>uint16\<close> in little-endian
  order: the low byte, then the high byte.
\<close>

definition PutUint16 :: "16 word \<Rightarrow> byte list" where
  "PutUint16 v = [ucast v, ucast (drop_bit 8 v)]"

text \<open>\<open>buf.WriteString\<close> appends the bytes of the string as they are.\<close>

definition byte_of_char :: "char \<Rightarrow> byte" where
  "byte_of_char c = of_nat (of_char c)"

definition bytes_of :: "string \<Rightarrow> byte list" where
  "bytes_of s = map byte_of_char s"

text \<open>The loop of lines 166-171, with the buffer passed along.\<close>

fun write_headers :: "byte list \<Rightarrow> hdr list \<Rightarrow> byte list" where
  "write_headers buf [] = buf"
| "write_headers buf (h # hs) =
     write_headers
       (buf @ PutUint16 (uint16 (length (name h))) @ bytes_of (name h)
            @ PutUint16 (uint16 (length (value h))) @ bytes_of (value h)) hs"

text \<open>
  Lines 161-165: four zero bytes, \<open>PutUint16\<close> into the slice \<open>uwsgiHeader[1:3]\<close>, and the
  reset buffer receives them.
\<close>

definition uwsgiHeader :: "nat \<Rightarrow> byte list" where
  "uwsgiHeader sz =
     (let b = PutUint16 (uint16 sz) in [0, 0, 0, 0][1 := b ! 0, 2 := b ! 1])"

definition encode_packet :: "nat \<Rightarrow> hdr list \<Rightarrow> byte list" where
  "encode_packet sz headers = write_headers ([] @ uwsgiHeader sz) headers"

text \<open>
  The size loop of lines 112-125: \<open>None\<close> is the early return with
  \<open>StatusRequestHeaderFieldsTooLarge\<close>, from inside the loop or after it.
\<close>

fun sum_sizes :: "nat \<Rightarrow> hdr list \<Rightarrow> nat option" where
  "sum_sizes sz [] = Some sz"
| "sum_sizes sz (h # hs) =
     (if length (name h) > maxSize \<or> length (value h) > maxSize then None
      else sum_sizes (sz + (length (name h) + length (value h) + 4)) hs)"

definition check_size :: "hdr list \<Rightarrow> nat option" where
  "check_size headers =
     (case sum_sizes 0 headers of
        None \<Rightarrow> None
      | Some sz \<Rightarrow> if sz > maxSize then None else Some sz)"

section \<open>Library functions the handler calls\<close>

text \<open>
  These belong to Go's standard library, not to the repository; each is written out from
  its documented behaviour, as far as \<open>ServeHTTP\<close> depends on it.
\<close>

text \<open>
  \<open>http.Header.Get\<close>: the first value stored under the key, the empty string when there
  is none. The four keys \<open>ServeHTTP\<close> asks for are in canonical form already, so the
  canonicalisation \<open>Get\<close> applies to its argument changes nothing.
\<close>

definition Get :: "Header \<Rightarrow> string \<Rightarrow> string" where
  "Get h key = (case h key of None \<Rightarrow> [] | Some [] \<Rightarrow> [] | Some (v # _) \<Rightarrow> v)"

text \<open>\<open>strings.IndexByte\<close>; \<open>None\<close> stands for the result \<open>-1\<close>.\<close>

fun IndexByte :: "string \<Rightarrow> char \<Rightarrow> nat option" where
  "IndexByte [] c = None"
| "IndexByte (x # xs) c = (if x = c then Some 0 else map_option Suc (IndexByte xs c))"

definition LastIndexByte :: "string \<Rightarrow> char \<Rightarrow> nat option" where
  "LastIndexByte s c = map_option (\<lambda>j. length s - 1 - j) (IndexByte (rev s) c)"

text \<open>\<open>strings.Join\<close>.\<close>

fun Join :: "string list \<Rightarrow> string \<Rightarrow> string" where
  "Join [] sep = []"
| "Join [x] sep = x"
| "Join (x # y # ys) sep = x @ sep @ Join (y # ys) sep"

text \<open>
  \<open>net.SplitHostPort\<close>: \<open>Some (host, port)\<close> when \<open>err == nil\<close>, \<open>None\<close> for each of its
  errors (missing port, too many colons, missing or unexpected bracket); the handler only
  tests \<open>err == nil\<close>.
\<close>

definition SplitHostPort :: "string \<Rightarrow> (string \<times> string) option" where
  "SplitHostPort hostport =
     (case LastIndexByte hostport CHR '':'' of
        None \<Rightarrow> None
      | Some i \<Rightarrow>
          if hd hostport = CHR ''[''
          then (case IndexByte hostport CHR '']'' of
                  None \<Rightarrow> None
                | Some e \<Rightarrow>
                    if e + 1 = length hostport then None
                    else if e + 1 = i
                    then (if IndexByte (drop 1 hostport) CHR ''['' \<noteq> None then None
                          else if IndexByte (drop (e + 1) hostport) CHR '']'' \<noteq> None then None
                          else Some (take (e - 1) (drop 1 hostport), drop (i + 1) hostport))
                    else None)
          else (let host = take i hostport in
                if IndexByte host CHR '':'' \<noteq> None then None
                else if IndexByte hostport CHR ''['' \<noteq> None then None
                else if IndexByte hostport CHR '']'' \<noteq> None then None
                else Some (host, drop (i + 1) hostport)))"

text \<open>\<open>strconv.FormatInt(i, 10)\<close>: the decimal digits, after a minus sign when \<open>i < 0\<close>.\<close>

fun formatBits :: "nat \<Rightarrow> string" where
  "formatBits u =
     (if u < 10 then [''0123456789'' ! u]
      else formatBits (u div 10) @ [''0123456789'' ! (u mod 10)])"

declare formatBits.simps [simp del]

definition FormatInt :: "int \<Rightarrow> string" where
  "FormatInt i = (if i < 0 then CHR ''-'' # formatBits (nat (- i)) else formatBits (nat i))"

section \<open>Header mapper\<close>

text \<open>Lines 64-73: the eight fields every request gets, in this order.\<close>

definition request_headers :: "Request \<Rightarrow> hdr list" where
  "request_headers r =
     [\<lparr>name = ''QUERY_STRING'', value = URL_RawQuery r\<rparr>,
      \<lparr>name = ''REQUEST_METHOD'', value = Method r\<rparr>,
      \<lparr>name = ''CONTENT_TYPE'', value = Get (Header r) ''Content-Type''\<rparr>,
      \<lparr>name = ''CONTENT_LENGTH'', value = FormatInt (ContentLength r)\<rparr>,
      \<lparr>name = ''REQUEST_URI'', value = RequestURI r\<rparr>,
      \<lparr>name = ''PATH_INFO'', value = URL_Path r\<rparr>,
      \<lparr>name = ''SERVER_PROTOCOL'', value = Proto r\<rparr>,
      \<lparr>name = ''SERVER_NAME'', value = Host r\<rparr>]"

text \<open>Lines 74-82: what is appended for the scheme and the serving port.\<close>

definition server_headers :: "Request \<Rightarrow> hdr list" where
  "server_headers r =
     (if URL_Scheme r = ''https'' \<or> Get (Header r) ''X-Forwarded-Proto'' = ''https''
      then [\<lparr>name = ''HTTPS'', value = ''on''\<rparr>, \<lparr>name = ''SERVER_PORT'', value = ''443''\<rparr>]
      else case LocalAddr r of
             Some addr \<Rightarrow>
               (case SplitHostPort addr of
                  Some (_, port) \<Rightarrow> [\<lparr>name = ''SERVER_PORT'', value = port\<rparr>]
                | None \<Rightarrow> [])
           | None \<Rightarrow> [\<lparr>name = ''SERVER_PORT'', value = ''80''\<rparr>])"

text \<open>Lines 83-96: what is appended for the caller's address and port.\<close>

definition forwarded_for :: "string \<Rightarrow> string" where
  "forwarded_for s = (case IndexByte s CHR '','' of
                        Some i \<Rightarrow> if i > 0 then take i s else s
                      | None \<Rightarrow> s)"

definition remote_headers :: "Request \<Rightarrow> hdr list" where
  "remote_headers r =
     (let s = Get (Header r) ''X-Forwarded-For'';
          hasRemoteAddr = (s \<noteq> []);
          headers = (if s \<noteq> [] then [\<lparr>name = ''REMOTE_ADDR'', value = forwarded_for s\<rparr>] else [])
      in case SplitHostPort (RemoteAddr r) of
           Some (host, port) \<Rightarrow>
             (if \<not> hasRemoteAddr then headers @ [\<lparr>name = ''REMOTE_ADDR'', value = host\<rparr>]
              else headers) @ [\<lparr>name = ''REMOTE_PORT'', value = port\<rparr>]
         | None \<Rightarrow> headers)"

definition positional_headers :: "Request \<Rightarrow> hdr list" where
  "positional_headers r = request_headers r @ server_headers r @ remote_headers r"

text \<open>
  The file \<open>src/unnamed/part_000\<close> is an earlier variant of the same handler. Its size
  loop, its dial loop and its encoder are those of \<open>src/uwsgi.go\<close>, word for word; its
  header mapper differs after the seventh field. Its first eight fields are the
  following, the first seven as above.
\<close>

definition request_headers_000 :: "Request \<Rightarrow> hdr list" where
  "request_headers_000 r =
     [\<lparr>name = ''QUERY_STRING'', value = URL_RawQuery r\<rparr>,
      \<lparr>name = ''REQUEST_METHOD'', value = Method r\<rparr>,
      \<lparr>name = ''CONTENT_TYPE'', value = Get (Header r) ''Content-Type''\<rparr>,
      \<lparr>name = ''CONTENT_LENGTH'', value = FormatInt (ContentLength r)\<rparr>,
      \<lparr>name = ''REQUEST_URI'', value = RequestURI r\<rparr>,
      \<lparr>name = ''PATH_INFO'', value = URL_Path r\<rparr>,
      \<lparr>name = ''SERVER_PROTOCOL'', value = Proto r\<rparr>,
      \<lparr>name = ''REQUEST_SCHEME'', value = URL_Scheme r\<rparr>]"

text \<open>
  Lines 97-111, the loop \<open>for k, v := range r.Header\<close>. Go leaves the order in which
  \<open>range\<close> visits the keys of a map unspecified and varies it from one loop to the next,
  so the order is an input of the model: the list \<open>ks\<close> of the keys in the order this
  execution visits them. It is an enumeration of the map's keys (\<open>key_order\<close>).

  The name is mapped with \<open>strings.Map\<close>, rune by rune: \<open>-\<close> becomes \<open>_\<close>, every other
  rune goes through \<open>unicode.ToUpper\<close>. On a key of ASCII bytes, the only keys net/http
  itself stores, this is \<open>ascii_upper\<close> below. Beyond ASCII the result comes from Go's
  Unicode tables, which are no part of the repository, so the mapping is a parameter
  \<open>up\<close> of the model and the theorems hold for every such function.
\<close>

definition key_order :: "Header \<Rightarrow> string list \<Rightarrow> bool" where
  "key_order h ks = (distinct ks \<and> set ks = dom h)"

definition ascii_upper_char :: "char \<Rightarrow> char" where
  "ascii_upper_char c =
     (if c = CHR 0x2D then CHR 0x5F
      else if 97 \<le> (of_char c :: nat) \<and> (of_char c :: nat) \<le> 122
      then ''ABCDEFGHIJKLMNOPQRSTUVWXYZ'' ! ((of_char c :: nat) - 97) else c)"

definition ascii_upper :: "string \<Rightarrow> string" where
  "ascii_upper k = map ascii_upper_char k"

definition http_hdr :: "(string \<Rightarrow> string) \<Rightarrow> string \<Rightarrow> string list \<Rightarrow> hdr" where
  "http_hdr up k v = \<lparr>name = ''HTTP_'' @ up k, value = Join v '', ''\<rparr>"

fun range_Header :: "(string \<Rightarrow> string) \<Rightarrow> Header \<Rightarrow> string list \<Rightarrow> hdr list \<Rightarrow> string + hdr list" where
  "range_Header up h [] headers = Inr headers"
| "range_Header up h (k # ks) headers =
     (case h k of
        None \<Rightarrow> range_Header up h ks headers
      | Some v \<Rightarrow>
          if length (name (http_hdr up k v)) > maxSize \<or> length (value (http_hdr up k v)) > maxSize
          then Inl k
          else range_Header up h ks (headers @ [http_hdr up k v]))"

section \<open>Connection acquirer\<close>

text \<open>
  What a call of the injected \<open>dial\<close> function returns, as far as the loop of lines
  129-158 tells results apart: a connection, the error \<open>context.Canceled\<close>, a
  \<open>net.Error\<close> whose \<open>Temporary()\<close> is true, any other error.
\<close>

datatype dial_result = Conn | Canceled | Temporary | OtherError

text \<open>How the loop ends: with a connection, by \<open>panic(http.ErrAbortHandler)\<close>, or by
  \<open>http.Error\<close> with a status and \<open>return\<close>.\<close>

datatype acquired = Connected | Abort | Failed nat

text \<open>\<open>time.Duration\<close> counts nanoseconds.\<close>

definition Millisecond :: nat where
  "Millisecond = 1000000"

definition Second :: nat where
  "Second = 1000 * Millisecond"

definition StatusBadRequest :: nat where "StatusBadRequest = 400"
definition StatusRequestHeaderFieldsTooLarge :: nat where "StatusRequestHeaderFieldsTooLarge = 431"
definition StatusBadGateway :: nat where "StatusBadGateway = 502"
definition StatusServiceUnavailable :: nat where "StatusServiceUnavailable = 503"
definition StatusGatewayTimeout :: nat where "StatusGatewayTimeout = 504"

text \<open>
  The loop. \<open>dial n\<close> is what the \<open>n\<close>-th call of the dial function returns (calls are
  counted from 0) and \<open>done n\<close> tells whether, in the \<open>select\<close> that follows the \<open>n\<close>-th
  call, the context's \<open>Done\<close> channel wins against the timer. The result carries the
  number of calls made and the delays of the timers started, in order.
  \<open>tempDelay\<close> is an \<open>int64\<close> in the code; from its initial 0 it only takes the values
  5 ms, 10 ms, ... up to 1280 ms, so it neither wraps nor goes negative and is a \<open>nat\<close>.
\<close>

function dial_loop ::
  "(nat \<Rightarrow> dial_result) \<Rightarrow> (nat \<Rightarrow> bool) \<Rightarrow> nat \<Rightarrow> nat \<Rightarrow> nat list \<Rightarrow> acquired \<times> nat \<times> nat list" where
  "dial_loop dial done n tempDelay waits =
     (case dial n of
        Conn \<Rightarrow> (Connected, Suc n, waits)
      | Canceled \<Rightarrow> (Abort, Suc n, waits)
      | Temporary \<Rightarrow>
          (let tempDelay' = (if tempDelay = 0 then 5 * Millisecond else tempDelay * 2) in
           if tempDelay' > Second then (Failed StatusGatewayTimeout, Suc n, waits)
           else if done n then (Abort, Suc n, waits @ [tempDelay'])
           else dial_loop dial done (Suc n) tempDelay' (waits @ [tempDelay']))
      | OtherError \<Rightarrow> (Failed StatusServiceUnavailable, Suc n, waits))"
  by pat_completeness auto
termination
  by (relation "measure (\<lambda>(dial, done, n, tempDelay, waits).
        if tempDelay = 0 then Suc (Suc Second) else Suc Second - tempDelay)")
     (auto simp: Second_def Millisecond_def)

declare dial_loop.simps [simp del]

section \<open>The handler\<close>

text \<open>
  Everything outside the request that one execution of \<open>ServeHTTP\<close> depends on: the name
  mapping and the iteration order of the header map (see \<open>range_Header\<close>), the dial
  function and the context (see \<open>dial_loop\<close>), and the backend connection: whether the
  write of the packet and the copy of the body fail, and after how many bytes
  (\<open>None\<close>: no error), and the response \<open>http.ReadResponse\<close> parses from the connection
  (\<open>None\<close>: an error). \<open>w_header\<close> is the header map of the \<open>ResponseWriter\<close> as the
  handler finds it.
\<close>

record Env =
  up :: "string \<Rightarrow> string"
  range_order :: "string list"
  dial :: "nat \<Rightarrow> dial_result"
  ctx_done :: "nat \<Rightarrow> bool"
  packet_write_err :: "nat option"
  body_write_err :: "nat option"
  backend_response :: "(nat \<times> Header \<times> byte list) option"
  w_header :: Header

text \<open>The text \<open>http.Error\<close> is called with, before formatting.\<close>

datatype error_text = TrailersNotSupported | HeaderTooLarge string | StatusText nat

datatype Response = Error error_text nat | Relayed nat Header "byte list"

datatype log_event = BackendConnect | PacketWrite | BodyWrite | ResponseRead

text \<open>
  What one execution does: the response written to the \<open>ResponseWriter\<close> (\<open>None\<close>: none
  was written), whether it ended in a panic, the number of calls of the dial function,
  the delays of the timers started, whether a connection was obtained, the bytes written
  to it, and the calls of \<open>logf\<close>. The handler panics in two places: with
  \<open>http.ErrAbortHandler\<close> in the dial loop (lines 134 and 152), where it has no
  connection, and inside \<open>w.WriteHeader\<close> (line 193), after the exchange over the
  connection; \<open>connected\<close> tells the two apart.
\<close>

record Outcome =
  response :: "Response option"
  panicked :: bool
  dial_calls :: nat
  waits :: "nat list"
  connected :: bool
  conn_written :: "byte list"
  logged :: "log_event list"

definition no_contact :: "Response \<Rightarrow> Outcome" where
  "no_contact resp = \<lparr>response = Some resp, panicked = False, dial_calls = 0, waits = [],
                      connected = False, conn_written = [], logged = []\<rparr>"

text \<open>Lines 57-125: the headers and their size, or the error response.\<close>

definition build_headers :: "Env \<Rightarrow> Request \<Rightarrow> Response + (hdr list \<times> nat)" where
  "build_headers env r =
     (if Get (Header r) ''Trailer'' \<noteq> [] then Inl (Error TrailersNotSupported StatusBadRequest)
      else case range_Header (up env) (Header r) (range_order env) (positional_headers r) of
             Inl k \<Rightarrow> Inl (Error (HeaderTooLarge k) StatusRequestHeaderFieldsTooLarge)
           | Inr headers \<Rightarrow>
               (case check_size headers of
                  None \<Rightarrow> Inl (Error (StatusText StatusRequestHeaderFieldsTooLarge)
                                     StatusRequestHeaderFieldsTooLarge)
                | Some sz \<Rightarrow> Inr (headers, sz)))"

text \<open>
  Lines 159-194: the exchange over the connection. The first component is the response
  written to the \<open>ResponseWriter\<close>. It is \<open>None\<close> when \<open>w.WriteHeader\<close> panics: net/http
  refuses a status code that is not of three digits (\<open>code < 100 || code > 999\<close>), and
  \<open>http.ReadResponse\<close> accepts the status codes \<open>000\<close> to \<open>999\<close>, so a backend that answers
  with a status below 100 makes line 193 panic, after the headers were copied and before
  anything is written.
\<close>

definition exchange ::
  "Env \<Rightarrow> Request \<Rightarrow> hdr list \<Rightarrow> nat \<Rightarrow> Response option \<times> byte list \<times> log_event list" where
  "exchange env r headers sz =
     (let buf = encode_packet sz headers in
      case packet_write_err env of
        Some n \<Rightarrow>
          (Some (Error (StatusText StatusBadGateway) StatusBadGateway), take n buf, [PacketWrite])
      | None \<Rightarrow>
          (case body_write_err env of
             Some n \<Rightarrow> (Some (Error (StatusText StatusBadGateway) StatusBadGateway),
                        buf @ take n (Body r), [BodyWrite])
           | None \<Rightarrow>
               (case backend_response env of
                  None \<Rightarrow> (Some (Error (StatusText StatusBadGateway) StatusBadGateway),
                           buf @ Body r, [ResponseRead])
                | Some (code, h, body) \<Rightarrow>
                    if code < 100 \<or> code > 999 then (None, buf @ Body r, [])
                    else (Some (Relayed code (w_header env ++ h) body), buf @ Body r, []))))"

definition ServeHTTP :: "Env \<Rightarrow> Request \<Rightarrow> Outcome" where
  "ServeHTTP env r =
     (case build_headers env r of
        Inl resp \<Rightarrow> no_contact resp
      | Inr (headers, sz) \<Rightarrow>
          (case dial_loop (dial env) (ctx_done env) 0 0 [] of
             (Abort, n, ws) \<Rightarrow>
               \<lparr>response = None, panicked = True, dial_calls = n, waits = ws,
                connected = False, conn_written = [], logged = []\<rparr>
           | (Failed code, n, ws) \<Rightarrow>
               \<lparr>response = Some (Error (StatusText code) code), panicked = False, dial_calls = n,
                waits = ws, connected = False, conn_written = [], logged = [BackendConnect]\<rparr>
           | (Connected, n, ws) \<Rightarrow>
               (case exchange env r headers sz of
                  (resp, written, logs) \<Rightarrow>
                    \<lparr>response = resp, panicked = (resp = None), dial_calls = n, waits = ws,
                     connected = True, conn_written = written, logged = logs\<rparr>)))"

section \<open>Reference definitions for the claims\<close>

text \<open>
  The notions the claims speak of. The layout of the packet (\<open>spec_packet\<close>), the decoder
  (\<open>spec_decode_packet\<close>), the left-most entry of a list and the value of a decimal
  numeral follow the words of the specification, not the code; the theorems compare the
  code with them. The header set of a request (\<open>all_headers\<close>) is put together from the
  functions of the code above.
\<close>

text \<open>The total encoded size of a header set: four bytes of length prefixes per pair.\<close>

definition total_size :: "hdr list \<Rightarrow> nat" where
  "total_size hs = (\<Sum>h\<leftarrow>hs. length (name h) + length (value h) + 4)"

definition too_large :: "hdr \<Rightarrow> bool" where
  "too_large h = (length (name h) > 65535 \<or> length (value h) > 65535)"

text \<open>A 16-bit unsigned integer in little-endian order, for \<open>n < 65536\<close>.\<close>

definition le16 :: "nat \<Rightarrow> byte list" where
  "le16 n = [of_nat (n mod 256), of_nat (n div 256)]"

definition spec_entry :: "hdr \<Rightarrow> byte list" where
  "spec_entry h =
     le16 (length (name h)) @ bytes_of (name h) @ le16 (length (value h)) @ bytes_of (value h)"

definition spec_packet :: "hdr list \<Rightarrow> byte list" where
  "spec_packet hs = [0] @ le16 (total_size hs) @ [0] @ concat (map spec_entry hs)"

text \<open>
  The decoder of the round-trip property. The repository has no decoder (the backend
  reads the packet); this one does what the property describes: it reads the four bytes
  of the prefix, then a length-prefixed name and a length-prefixed value again and again
  until the payload is used up. \<open>None\<close>: the packet is cut short.
\<close>

definition rd16 :: "byte \<Rightarrow> byte \<Rightarrow> nat" where
  "rd16 lo hi = unat lo + 256 * unat hi"

definition string_of :: "byte list \<Rightarrow> string" where
  "string_of bs = map (\<lambda>b. char_of (unat b)) bs"

function spec_decode_entries :: "byte list \<Rightarrow> hdr list option" where
  "spec_decode_entries [] = Some []"
| "spec_decode_entries [b] = None"
| "spec_decode_entries (lo # hi # bs) =
     (let n = rd16 lo hi in
      if length bs < n then None
      else case drop n bs of
             lo' # hi' # bs' \<Rightarrow>
               (let m = rd16 lo' hi' in
                if length bs' < m then None
                else case spec_decode_entries (drop m bs') of
                       None \<Rightarrow> None
                     | Some hs \<Rightarrow>
                         Some (\<lparr>name = string_of (take n bs), value = string_of (take m bs')\<rparr> # hs))
           | _ \<Rightarrow> None)"
  by pat_completeness auto
termination
  by (relation "measure length") (auto dest!: arg_cong [where f = length])

definition spec_decode_packet :: "byte list \<Rightarrow> hdr list option" where
  "spec_decode_packet bs =
     (case bs of
        m1 # lo # hi # m2 # payload \<Rightarrow>
          if length payload < rd16 lo hi then None
          else spec_decode_entries (take (rd16 lo hi) payload)
      | _ \<Rightarrow> None)"

text \<open>
  The pairs the loop over the inbound headers appends when none of them is too large, in
  the order the keys are visited, and with them the whole header set of a request.
\<close>

definition transformed_headers :: "(string \<Rightarrow> string) \<Rightarrow> Header \<Rightarrow> string list \<Rightarrow> hdr list" where
  "transformed_headers f h ks = List.map_filter (\<lambda>k. map_option (http_hdr f k) (h k)) ks"

definition all_headers :: "Env \<Rightarrow> Request \<Rightarrow> hdr list" where
  "all_headers env r =
     positional_headers r @ transformed_headers (up env) (Header r) (range_order env)"

text \<open>The values a header set gives for a name, in order.\<close>

definition fields :: "hdr list \<Rightarrow> string \<Rightarrow> string list" where
  "fields hs n = map value (filter (\<lambda>h. name h = n) hs)"

text \<open>The wait before retry number \<open>k\<close> (from 0): 5 ms, doubled \<open>k\<close> times.\<close>

definition backoff :: "nat \<Rightarrow> nat" where
  "backoff k = 5 * Millisecond * 2 ^ k"

text \<open>A 4xx status.\<close>

definition client_error :: "Response \<Rightarrow> bool" where
  "client_error resp = (case resp of Error t code \<Rightarrow> 400 \<le> code \<and> code < 500 | _ \<Rightarrow> False)"

section \<open>Examples\<close>

text \<open>A request and an environment to run the handler on.\<close>

definition example_request :: Request where
  "example_request =
     \<lparr>Method = ''GET'', URL_Scheme = ''http'', URL_Path = ''/a'', URL_RawQuery = ''x=1'',
      Proto = ''HTTP/1.1'',
      Header = [''Accept'' \<mapsto> [''*/*''], ''X-Forwarded-For'' \<mapsto> [''1.2.3.4, 5.6.7.6'']],
      ContentLength = - 1, Host = ''example.com'', RequestURI = ''/a?x=1'',
      RemoteAddr = ''9.9.9.9:555'', LocalAddr = Some ''127.0.0.1:8080'', Body = [1, 2, 3]\<rparr>"

definition example_env :: Env where
  "example_env =
     \<lparr>up = ascii_upper, range_order = [''Accept'', ''X-Forwarded-For''],
      dial = (\<lambda>n. Conn), ctx_done = (\<lambda>n. False),
      packet_write_err = None, body_write_err = None,
      backend_response = Some (200, Map.empty, []), w_header = Map.empty\<rparr>"

definition example_headers :: "hdr list" where
  "example_headers =
     [\<lparr>name = ''QUERY_STRING'', value = ''x=1''\<rparr>,
      \<lparr>name = ''REQUEST_METHOD'', value = ''GET''\<rparr>,
      \<lparr>name = ''CONTENT_TYPE'', value = []\<rparr>,
      \<lparr>name = ''CONTENT_LENGTH'', value = ''-1''\<rparr>,
      \<lparr>name = ''REQUEST_URI'', value = ''/a?x=1''\<rparr>,
      \<lparr>name = ''PATH_INFO'', value = ''/a''\<rparr>,
      \<lparr>name = ''SERVER_PROTOCOL'', value = ''HTTP/1.1''\<rparr>,
      \<lparr>name = ''SERVER_NAME'', value = ''example.com''\<rparr>,
      \<lparr>name = ''SERVER_PORT'', value = ''8080''\<rparr>,
      \<lparr>name = ''REMOTE_ADDR'', value = ''1.2.3.4''\<rparr>,
      \<lparr>name = ''REMOTE_PORT'', value = ''555''\<rparr>,
      \<lparr>name = ''HTTP_ACCEPT'', value = ''*/*''\<rparr>,
      \<lparr>name = ''HTTP_X_FORWARDED_FOR'', value = ''1.2.3.4, 5.6.7.6''\<rparr>]"

text \<open>Two requests with too much in their headers: one value of 65536 bytes, and two
  values of 40000 bytes each.\<close>

definition big_request :: Request where
  "big_request = example_request\<lparr>Header := [''X-Big'' \<mapsto> [replicate 65536 CHR ''a'']]\<rparr>"

definition big_env :: Env where
  "big_env = example_env\<lparr>range_order := [''X-Big'']\<rparr>"

definition bulky_request :: Request where
  "bulky_request =
     example_request\<lparr>Header := [''X-One'' \<mapsto> [replicate 40000 CHR ''a''],
                                 ''X-Two'' \<mapsto> [replicate 40000 CHR ''b'']]\<rparr>"

definition bulky_env :: Env where
  "bulky_env = example_env\<lparr>range_order := [''X-One'', ''X-Two'']\<rparr>"

text \<open>The left-most entry of a comma-separated list: what stands before the first comma.\<close>

definition leftmost_entry :: "string \<Rightarrow> string" where
  "leftmost_entry s = takeWhile (\<lambda>c. c \<noteq> CHR '','') s"

text \<open>The integer a signed decimal numeral denotes.\<close>

definition decimal_value :: "string \<Rightarrow> nat" where
  "decimal_value ds = foldl (\<lambda>a c. 10 * a + (of_char c - 48)) 0 ds"

definition signed_decimal_value :: "string \<Rightarrow> int" where
  "signed_decimal_value s =
     (case s of
        [] \<Rightarrow> 0
      | c # ds \<Rightarrow> if c = CHR ''-'' then - int (decimal_value ds) else int (decimal_value s))"

text \<open>The shape of a signed decimal numeral: digits, after a minus sign or not.\<close>

definition decimal_digits :: "string \<Rightarrow> bool" where
  "decimal_digits ds = (ds \<noteq> [] \<and> set ds \<subseteq> set ''0123456789'')"

definition signed_decimal :: "string \<Rightarrow> bool" where
  "signed_decimal s =
     (case s of
        [] \<Rightarrow> False
      | c # ds \<Rightarrow> if c = CHR ''-'' then decimal_digits ds else decimal_digits s)"

text \<open>A request served on a Unix socket, and one whose forwarding header starts with a
  comma.\<close>

definition unix_request :: Request where
  "unix_request = example_request\<lparr>LocalAddr := Some ''/run/uwsgi.sock''\<rparr>"

definition comma_request :: Request where
  "comma_request = example_request\<lparr>Header := [''X-Forwarded-For'' \<mapsto> ['', 5.6.7.6'']]\<rparr>"

definition https_request :: Request where
  "https_request = example_request\<lparr>URL_Scheme := ''https''\<rparr>"

definition comma_env :: Env where
  "comma_env = example_env\<lparr>range_order := [''X-Forwarded-For'']\<rparr>"

text \<open>The environment of the example with the two keys of the header map visited in the
  other order.\<close>

definition swapped_env :: Env where
  "swapped_env = example_env\<lparr>range_order := [''X-Forwarded-For'', ''Accept'']\<rparr>"



section \<open>Properties\<close>

subsection \<open>The encoder\<close>

lemma unat_ucast_byte: "unat (ucast (w :: 16 word) :: byte) = unat w mod 256"
  by (simp add: unsigned_ucast_eq take_bit_eq_mod)

lemma ucast_low_byte: "(ucast (of_nat n :: 16 word) :: byte) = of_nat (n mod 256)"
  by (simp only: word_unat_eq_iff unat_ucast_byte unat_of_nat) (simp add: mod_mod_cancel)

lemma high_byte_arith: "(n mod 65536) div 256 mod 256 = (n::nat) div 256 mod 256"
proof -
  have "(n mod 65536) div 256 = (n div 256) mod 256"
    using div_mult2_eq mod_mult2_eq [of n 256 256] by simp
  then show ?thesis by simp
qed

lemma ucast_high_byte: "(ucast (drop_bit 8 (of_nat n :: 16 word)) :: byte) = of_nat (n div 256)"
  by (simp only: word_unat_eq_iff unat_ucast_byte unat_of_nat unat_drop_bit_eq)
     (simp add: drop_bit_eq_div high_byte_arith)

lemma PutUint16_le16: "PutUint16 (uint16 n) = le16 n"
  by (simp add: PutUint16_def uint16_def le16_def ucast_low_byte ucast_high_byte)

lemma uwsgiHeader_le16: "uwsgiHeader sz = [0] @ le16 sz @ [0]"
  by (simp add: uwsgiHeader_def PutUint16_le16 Let_def) (simp add: le16_def)

lemma write_headers_append: "write_headers buf hs = buf @ concat (map spec_entry hs)"
  by (induction hs arbitrary: buf) (simp_all add: spec_entry_def PutUint16_le16)

lemma encode_packet_layout: "encode_packet (total_size hs) hs = spec_packet hs"
  by (simp add: encode_packet_def write_headers_append uwsgiHeader_le16 spec_packet_def)

lemma length_spec_entry: "length (spec_entry h) = length (name h) + length (value h) + 4"
  by (simp add: spec_entry_def le16_def bytes_of_def)

lemma length_entries: "length (concat (map spec_entry hs)) = total_size hs"
  by (induction hs) (simp_all add: total_size_def length_spec_entry)

lemma length_spec_packet: "length (spec_packet hs) = 4 + total_size hs"
  by (simp add: spec_packet_def length_entries le16_def)

subsection \<open>The size check\<close>

lemma sum_sizes_eq:
  "sum_sizes sz hs = (if \<exists>h\<in>set hs. too_large h then None else Some (sz + total_size hs))"
  by (induction hs arbitrary: sz) (auto simp: too_large_def total_size_def maxSize_def)

lemma check_size_eq:
  "check_size hs = (if (\<exists>h\<in>set hs. too_large h) \<or> total_size hs > 65535 then None
                    else Some (total_size hs))"
  by (simp add: check_size_def sum_sizes_eq maxSize_def)

lemma field_le_total: "h \<in> set hs \<Longrightarrow> length (name h) + length (value h) + 4 \<le> total_size hs"
  by (induction hs) (auto simp: total_size_def)

lemma too_large_total: "h \<in> set hs \<Longrightarrow> too_large h \<Longrightarrow> total_size hs > 65535"
  using field_le_total [of h hs] by (auto simp: too_large_def)

subsection \<open>The decoder\<close>

lemma rd16_le16: "n < 65536 \<Longrightarrow> (case le16 n of [lo, hi] \<Rightarrow> rd16 lo hi) = n"
proof -
  assume "n < 65536"
  then have "n div 256 < 256" by simp
  then show ?thesis by (simp add: le16_def rd16_def unat_of_nat)
qed

lemma string_of_bytes_of: "string_of (bytes_of s) = s"
  by (induction s) (simp_all add: string_of_def bytes_of_def byte_of_char_def unat_of_nat)

lemma decode_entry:
  assumes "length (name h) < 65536" "length (value h) < 65536"
  shows "spec_decode_entries (spec_entry h @ rest) =
           (case spec_decode_entries rest of None \<Rightarrow> None | Some hs \<Rightarrow> Some (h # hs))"
proof -
  have n: "rd16 (of_nat (length (name h) mod 256)) (of_nat (length (name h) div 256)) = length (name h)"
    using rd16_le16 [OF assms(1)] by (simp add: le16_def)
  have m: "rd16 (of_nat (length (value h) mod 256)) (of_nat (length (value h) div 256)) = length (value h)"
    using rd16_le16 [OF assms(2)] by (simp add: le16_def)
  have l: "length (bytes_of (name h)) = length (name h)" "length (bytes_of (value h)) = length (value h)"
    by (simp_all add: bytes_of_def)
  show ?thesis
    by (simp add: spec_entry_def le16_def n m l string_of_bytes_of split: option.split)
qed

lemma decode_entries_roundtrip:
  "\<forall>h\<in>set hs. \<not> too_large h \<Longrightarrow> spec_decode_entries (concat (map spec_entry hs)) = Some hs"
proof (induction hs)
  case Nil
  show ?case by simp
next
  case (Cons h hs)
  then have "length (name h) < 65536" "length (value h) < 65536"
    by (simp_all add: too_large_def)
  from decode_entry [OF this, of "concat (map spec_entry hs)"] Cons show ?case by simp
qed

subsection \<open>The example request\<close>

lemma example_positional: "positional_headers example_request = take 11 example_headers"
  by (simp add: positional_headers_def request_headers_def server_headers_def remote_headers_def
      example_request_def example_headers_def Get_def FormatInt_def formatBits.simps
      SplitHostPort_def LastIndexByte_def forwarded_for_def)

lemma example_total: "total_size example_headers = 282"
  by (simp add: total_size_def example_headers_def)

lemma example_not_too_large: "\<forall>h\<in>set example_headers. \<not> too_large h"
  by (simp add: example_headers_def too_large_def)

lemma example_check_size: "check_size example_headers = Some 282"
  using example_not_too_large by (simp add: check_size_eq example_total)

lemma example_range:
  "range_Header ascii_upper (Header example_request) [''Accept'', ''X-Forwarded-For'']
     (positional_headers example_request) = Inr example_headers"
  unfolding example_positional
  by (simp add: example_request_def example_headers_def http_hdr_def ascii_upper_def
      ascii_upper_char_def maxSize_def)

lemma example_no_trailer: "Get (Header example_request) ''Trailer'' = []"
  by (simp add: example_request_def Get_def)

lemma example_build:
  "range_order env = [''Accept'', ''X-Forwarded-For''] \<Longrightarrow> up env = ascii_upper \<Longrightarrow>
   build_headers env example_request = Inr (example_headers, 282)"
  by (simp add: build_headers_def example_no_trailer example_range example_check_size
      del: range_Header.simps)

subsection \<open>The header mapper\<close>

lemma range_Header_Inr_iff:
  "range_Header f h ks acc = Inr hs \<longleftrightarrow>
     hs = acc @ transformed_headers f h ks \<and> (\<forall>x\<in>set (transformed_headers f h ks). \<not> too_large x)"
  by (induction ks arbitrary: acc)
     (auto simp: transformed_headers_def too_large_def maxSize_def
           split: option.splits)

lemma range_Header_Inl:
  "range_Header f h ks acc = Inl k \<Longrightarrow> \<exists>x\<in>set (transformed_headers f h ks). too_large x"
  by (induction ks arbitrary: acc)
     (auto simp: transformed_headers_def too_large_def maxSize_def
           split: option.splits if_splits)

lemma build_headers_Inr_iff:
  "build_headers env r = Inr (hs, sz) \<longleftrightarrow>
     Get (Header r) ''Trailer'' = [] \<and> hs = all_headers env r \<and>
     (\<forall>h\<in>set hs. \<not> too_large h) \<and> total_size hs \<le> 65535 \<and> sz = total_size hs"
proof (cases "range_Header (up env) (Header r) (range_order env) (positional_headers r)")
  case (Inl k)
  from range_Header_Inl [OF this] Inl show ?thesis
    by (auto simp: build_headers_def all_headers_def)
next
  case (Inr hs')
  then have hs': "hs' = all_headers env r"
    by (simp add: range_Header_Inr_iff all_headers_def)
  show ?thesis
    using Inr by (auto simp: build_headers_def hs' check_size_eq split: if_splits)
qed

lemma build_headers_Inl:
  "build_headers env r = Inl resp \<Longrightarrow> client_error resp"
  by (auto simp: build_headers_def client_error_def StatusBadRequest_def
        StatusRequestHeaderFieldsTooLarge_def split: if_splits sum.splits option.splits)

lemma build_headers_cases:
  "(\<exists>resp. build_headers env r = Inl resp) \<or>
   build_headers env r = Inr (all_headers env r, total_size (all_headers env r))"
proof (cases "build_headers env r")
  case (Inl resp)
  then show ?thesis by blast
next
  case (Inr p)
  obtain hs sz where "p = (hs, sz)" by (cases p)
  with Inr have b: "build_headers env r = Inr (hs, sz)" by simp
  then have "hs = all_headers env r" "sz = total_size hs"
    by (simp_all add: build_headers_Inr_iff)
  with b show ?thesis by simp
qed

subsection \<open>The dial loop\<close>

lemma dial_loop_Conn:
  "dl n = Conn \<Longrightarrow> dial_loop dl dn n d ws = (Connected, Suc n, ws)"
  by (simp add: dial_loop.simps)

lemma dial_loop_Canceled:
  "dl n = Canceled \<Longrightarrow> dial_loop dl dn n d ws = (Abort, Suc n, ws)"
  by (simp add: dial_loop.simps)

lemma dial_loop_OtherError:
  "dl n = OtherError \<Longrightarrow>
   dial_loop dl dn n d ws = (Failed StatusServiceUnavailable, Suc n, ws)"
  by (simp add: dial_loop.simps)

lemma dial_loop_Temporary:
  "dl n = Temporary \<Longrightarrow>
   dial_loop dl dn n d ws =
     (let d' = (if d = 0 then 5 * Millisecond else d * 2) in
      if d' > Second then (Failed StatusGatewayTimeout, Suc n, ws)
      else if dn n then (Abort, Suc n, ws @ [d'])
      else dial_loop dl dn (Suc n) d' (ws @ [d']))"
  by (subst dial_loop.simps) simp

lemma backoff_Suc: "backoff (Suc k) = backoff k * 2"
  by (simp add: backoff_def)

lemma backoff_le_Second: "k \<le> 7 \<Longrightarrow> backoff k \<le> Second"
proof -
  assume "k \<le> 7"
  then have "(2::nat) ^ k \<le> 2 ^ 7" by (intro power_increasing) simp_all
  then show ?thesis by (simp add: backoff_def Second_def Millisecond_def)
qed

lemma backoff_pos: "backoff k > 0"
  by (simp add: backoff_def Millisecond_def)

text \<open>After \<open>k\<close> failed attempts, each followed by a wait that ran to its end.\<close>

lemma dial_loop_retries:
  assumes "\<forall>i<k. dl i = Temporary \<and> \<not> dn i" "k \<le> 8"
  shows "dial_loop dl dn 0 0 [] =
           dial_loop dl dn k (if k = 0 then 0 else backoff (k - 1)) (map backoff [0..<k])"
  using assms
proof (induction k)
  case 0
  show ?case by simp
next
  case (Suc k)
  then have IH: "dial_loop dl dn 0 0 [] =
      dial_loop dl dn k (if k = 0 then 0 else backoff (k - 1)) (map backoff [0..<k])"
    by simp
  from Suc.prems have step: "dl k = Temporary" "\<not> dn k" "k \<le> 7" by simp_all
  have d: "(if (if k = 0 then 0 else backoff (k - 1)) = 0 then 5 * Millisecond
            else (if k = 0 then 0 else backoff (k - 1)) * 2) = backoff k"
    using backoff_pos [of "k - 1"] backoff_Suc [of "k - 1"] by (cases k) (simp_all add: backoff_def)
  have "\<not> backoff k > Second" using backoff_le_Second [OF step(3)] by simp
  then show ?case
    unfolding IH
    by (simp add: dial_loop_Temporary [where dl = dl and n = k, OF step(1)] d step(2) Let_def)
qed

subsection \<open>The handler\<close>

lemma ServeHTTP_rejected:
  "build_headers env r = Inl resp \<Longrightarrow> ServeHTTP env r = no_contact resp"
  by (simp add: ServeHTTP_def)

lemma ServeHTTP_Abort:
  "build_headers env r = Inr (hs, sz) \<Longrightarrow>
   dial_loop (dial env) (ctx_done env) 0 0 [] = (Abort, n, ws) \<Longrightarrow>
   ServeHTTP env r = \<lparr>response = None, panicked = True, dial_calls = n, waits = ws,
                       connected = False, conn_written = [], logged = []\<rparr>"
  by (simp add: ServeHTTP_def)

lemma ServeHTTP_Failed:
  "build_headers env r = Inr (hs, sz) \<Longrightarrow>
   dial_loop (dial env) (ctx_done env) 0 0 [] = (Failed code, n, ws) \<Longrightarrow>
   ServeHTTP env r = \<lparr>response = Some (Error (StatusText code) code), panicked = False,
                       dial_calls = n, waits = ws, connected = False, conn_written = [],
                       logged = [BackendConnect]\<rparr>"
  by (simp add: ServeHTTP_def)

lemma exchange_packet:
  "packet_write_err env = None \<Longrightarrow>
   take (length (encode_packet sz hs)) (fst (snd (exchange env r hs sz))) = encode_packet sz hs"
  by (simp add: exchange_def Let_def split: option.splits prod.splits)

lemma ServeHTTP_Connected:
  "build_headers env r = Inr (hs, sz) \<Longrightarrow>
   dial_loop (dial env) (ctx_done env) 0 0 [] = (Connected, n, ws) \<Longrightarrow>
   ServeHTTP env r = \<lparr>response = fst (exchange env r hs sz),
                       panicked = (fst (exchange env r hs sz) = None),
                       dial_calls = n, waits = ws, connected = True,
                       conn_written = fst (snd (exchange env r hs sz)),
                       logged = snd (snd (exchange env r hs sz))\<rparr>"
  by (simp add: ServeHTTP_def split: prod.splits)

text \<open>A backend status that is not of three digits makes \<open>w.WriteHeader\<close> panic.\<close>

lemma exchange_invalid_status:
  "packet_write_err env = None \<Longrightarrow> body_write_err env = None \<Longrightarrow>
   backend_response env = Some (code, h, body) \<Longrightarrow> code < 100 \<or> code > 999 \<Longrightarrow>
   exchange env r hs sz = (None, encode_packet sz hs @ Body r, [])"
  by (simp add: exchange_def)

subsection \<open>The fields of a header set\<close>

lemma fields_append: "fields (xs @ ys) n = fields xs n @ fields ys n"
  by (simp add: fields_def)

lemma fields_transformed:
  "take 5 n \<noteq> ''HTTP_'' \<Longrightarrow> fields (transformed_headers f h ks) n = []"
  by (induction ks)
     (auto simp: fields_def transformed_headers_def http_hdr_def split: option.splits)

lemma fields_all_headers:
  "take 5 n \<noteq> ''HTTP_'' \<Longrightarrow>
   fields (all_headers env r) n =
     fields (request_headers r) n @ fields (server_headers r) n @ fields (remote_headers r) n"
  by (simp add: all_headers_def positional_headers_def fields_append fields_transformed)

lemma IndexByte_None: "IndexByte s c = None \<longleftrightarrow> c \<notin> set s"
  by (induction s) auto

lemma IndexByte_Some: "IndexByte s c = Some i \<Longrightarrow> take i s = takeWhile (\<lambda>x. x \<noteq> c) s"
  by (induction s arbitrary: i) (auto split: if_splits)

lemma IndexByte_0: "IndexByte s c = Some 0 \<longleftrightarrow> s \<noteq> [] \<and> hd s = c"
  by (cases s) auto

lemma forwarded_for_eq:
  "forwarded_for s = (if s \<noteq> [] \<and> hd s = CHR '','' then s else leftmost_entry s)"
proof (cases "IndexByte s CHR '',''")
  case None
  then have "CHR '','' \<notin> set s" by (simp add: IndexByte_None)
  then have "leftmost_entry s = s" "\<not> (s \<noteq> [] \<and> hd s = CHR '','')"
    by (cases s; auto simp: leftmost_entry_def)+
  with None show ?thesis by (simp add: forwarded_for_def)
next
  case (Some i)
  from IndexByte_Some [OF Some] have t: "take i s = leftmost_entry s"
    by (simp add: leftmost_entry_def)
  show ?thesis
  proof (cases i)
    case 0
    with Some have "s \<noteq> [] \<and> hd s = CHR '',''"
      using IndexByte_0 [of s "CHR '',''"] by simp
    with Some 0 show ?thesis by (simp add: forwarded_for_def)
  next
    case (Suc j)
    with Some have "\<not> (s \<noteq> [] \<and> hd s = CHR '','')"
      using IndexByte_0 [of s "CHR '',''"] by auto
    with Some Suc t show ?thesis by (auto simp: forwarded_for_def)
  qed
qed

subsection \<open>Decimal numerals\<close>

lemma decimal_value_snoc:
  "decimal_value (ds @ [c]) = 10 * decimal_value ds + (of_char c - 48)"
  by (simp add: decimal_value_def)

lemma digit_value: "d < 10 \<Longrightarrow> (of_char (''0123456789'' ! d) :: nat) - 48 = d"
proof -
  assume "d < 10"
  then have "d \<in> {0, 1, 2, 3, 4, 5, 6, 7, 8, 9}" by auto
  then show ?thesis by auto
qed

lemma decimal_value_formatBits: "decimal_value (formatBits u) = u"
proof (induction u rule: formatBits.induct)
  case (1 u)
  show ?case
  proof (cases "u < 10")
    case True
    then show ?thesis
      by (subst formatBits.simps) (simp add: decimal_value_def digit_value)
  next
    case False
    with 1 have "decimal_value (formatBits (u div 10)) = u div 10" by simp
    with False show ?thesis
      by (subst formatBits.simps) (simp add: decimal_value_snoc digit_value)
  qed
qed

lemma formatBits_no_minus: "formatBits u \<noteq> [] \<and> hd (formatBits u) \<noteq> CHR ''-''"
proof (induction u rule: formatBits.induct)
  case (1 u)
  show ?case
  proof (cases "u < 10")
    case True
    then have "u \<in> {0, 1, 2, 3, 4, 5, 6, 7, 8, 9}" by auto
    then show ?thesis by (subst (1 2) formatBits.simps) auto
  next
    case False
    with 1 show ?thesis by (subst (1 2) formatBits.simps) (simp add: hd_append)
  qed
qed

lemma signed_decimal_value_FormatInt: "signed_decimal_value (FormatInt i) = i"
proof (cases "i < 0")
  case True
  then show ?thesis
    by (simp add: FormatInt_def signed_decimal_value_def decimal_value_formatBits)
next
  case False
  obtain c ds where f: "formatBits (nat i) = c # ds" "c \<noteq> CHR ''-''"
    using formatBits_no_minus [of "nat i"] by (cases "formatBits (nat i)") auto
  have "decimal_value (c # ds) = nat i"
    using decimal_value_formatBits [of "nat i"] f by simp
  with False f show ?thesis
    by (simp add: FormatInt_def signed_decimal_value_def)
qed

text \<open>The earlier variant of the handler has the same first seven fields.\<close>

lemma request_headers_000_same: "take 7 (request_headers_000 r) = take 7 (request_headers r)"
  by (simp add: request_headers_000_def request_headers_def)

subsection \<open>The order of the inbound headers\<close>

lemma transformed_headers_map:
  "set ks \<subseteq> dom h \<Longrightarrow>
   transformed_headers f h ks = map (\<lambda>k. http_hdr f k (the (h k))) ks"
  by (induction ks) (auto simp: transformed_headers_def)

lemma key_order_mset: "key_order h ks \<Longrightarrow> key_order h ks' \<Longrightarrow> mset ks' = mset ks"
  using set_eq_iff_mset_eq_distinct [of ks' ks] by (simp add: key_order_def)

lemma total_size_mset: "mset hs' = mset hs \<Longrightarrow> total_size hs' = total_size hs"
proof -
  have e: "total_size xs =
           sum_mset (image_mset (\<lambda>h. length (name h) + length (value h) + 4) (mset xs))" for xs
    unfolding total_size_def mset_map [symmetric] sum_mset_sum_list ..
  assume "mset hs' = mset hs"
  then show ?thesis by (simp add: e)
qed

subsection \<open>Acceptance, and the packet on the connection\<close>

lemma build_headers_accepts:
  assumes "Get (Header r) ''Trailer'' = []" and "total_size (all_headers env r) \<le> 65535"
  shows "build_headers env r = Inr (all_headers env r, total_size (all_headers env r))"
proof -
  have "\<forall>h\<in>set (all_headers env r). \<not> too_large h"
    using assms(2) too_large_total [of _ "all_headers env r"] by fastforce
  with assms show ?thesis by (simp add: build_headers_Inr_iff)
qed

lemma ServeHTTP_packet:
  assumes "build_headers env r = Inr (hs, sz)"
    and "fst (dial_loop (dial env) (ctx_done env) 0 0 []) = Connected"
    and "packet_write_err env = None"
  shows "take (4 + total_size hs) (conn_written (ServeHTTP env r)) = spec_packet hs"
proof -
  from assms(1) have sz: "sz = total_size hs" by (simp add: build_headers_Inr_iff)
  obtain n ws where "dial_loop (dial env) (ctx_done env) 0 0 [] = (Connected, n, ws)"
    using assms(2) by (cases "dial_loop (dial env) (ctx_done env) 0 0 []") simp
  from ServeHTTP_Connected [OF assms(1) this]
  have "conn_written (ServeHTTP env r) = fst (snd (exchange env r hs sz))" by simp
  with exchange_packet [OF assms(3), of sz hs r] show ?thesis
    by (simp add: sz encode_packet_layout length_spec_packet)
qed

text \<open>Where the fourth pair of a header set stands in the packet.\<close>

lemma fourth_entry_in_packet:
  assumes "length hs > 3"
  shows "take (length (spec_entry (hs ! 3))) (drop (4 + total_size (take 3 hs)) (spec_packet hs @ rest)) =
           spec_entry (hs ! 3)"
proof -
  have "hs = take 3 hs @ hs ! 3 # drop 4 hs"
    using id_take_nth_drop [OF assms] by simp
  from arg_cong [OF this, of "\<lambda>xs. concat (map spec_entry xs)"]
  have c: "concat (map spec_entry hs) =
      concat (map spec_entry (take 3 hs)) @ spec_entry (hs ! 3) @ concat (map spec_entry (drop 4 hs))"
    by simp
  have l: "length ([0] @ le16 (total_size hs) @ [0] @ concat (map spec_entry (take 3 hs))) =
      4 + total_size (take 3 hs)"
    by (simp add: length_entries le16_def)
  have "spec_packet hs @ rest =
      ([0] @ le16 (total_size hs) @ [0] @ concat (map spec_entry (take 3 hs))) @
      spec_entry (hs ! 3) @ (concat (map spec_entry (drop 4 hs)) @ rest)"
    unfolding spec_packet_def c by simp
  then show ?thesis
    using l by (metis append_eq_conv_conj)
qed

lemma decimal_digits_formatBits: "decimal_digits (formatBits u)"
proof (induction u rule: formatBits.induct)
  case (1 u)
  have d: "''0123456789'' ! k \<in> set ''0123456789''" if "k < 10" for k
    using that nth_mem [of k "''0123456789''"] by simp
  show ?case
  proof (cases "u < 10")
    case True
    with d [of u] show ?thesis
      by (subst formatBits.simps) (simp add: decimal_digits_def)
  next
    case False
    with 1 have "decimal_digits (formatBits (u div 10))" by simp
    with False d [of "u mod 10"] show ?thesis
      by (subst formatBits.simps) (simp add: decimal_digits_def)
  qed
qed

lemma signed_decimal_FormatInt: "signed_decimal (FormatInt i)"
proof (cases "i < 0")
  case True
  then show ?thesis
    by (simp add: FormatInt_def signed_decimal_def decimal_digits_formatBits)
next
  case False
  obtain c ds where f: "formatBits (nat i) = c # ds" "c \<noteq> CHR ''-''"
    using formatBits_no_minus [of "nat i"] by (cases "formatBits (nat i)") auto
  with False decimal_digits_formatBits [of "nat i"] show ?thesis
    by (simp add: FormatInt_def signed_decimal_def)
qed

lemma length_all_headers: "length (all_headers env r) > 3"
  by (simp add: all_headers_def positional_headers_def request_headers_def)

lemma example_all_headers: "all_headers example_env example_request = example_headers"
  using example_build [of example_env] by (simp add: build_headers_Inr_iff example_env_def)

section \<open>The claims\<close>

text \<open>
  C1. For every header set whose total encoded size is at most 65535, the size check
  passes with that size, and the packet the encoder builds is byte 0 equal to 0, the
  total size as a little-endian 16-bit integer in bytes 1-2, byte 3 equal to 0, then for
  each pair in order the 16-bit little-endian length of the name, the bytes of the name,
  the 16-bit little-endian length of the value and the bytes of the value, nothing
  escaped: \<open>4 + total_size hs\<close> bytes. The size field is the sum over the pairs of
  \<open>len(name) + len(value) + 4\<close>. When the handler has built this header set for a
  request, has obtained a connection and the write of the packet does not fail, these
  are the first bytes written to the connection.
\<close>

theorem packet_layout:
  assumes "total_size hs \<le> 65535"
  shows "check_size hs = Some (total_size hs) \<and>
         encode_packet (total_size hs) hs = spec_packet hs \<and>
         length (spec_packet hs) = 4 + total_size hs \<and>
         total_size hs = (\<Sum>h\<leftarrow>hs. length (name h) + length (value h) + 4) \<and>
         (build_headers env r = Inr (hs, sz) \<longrightarrow>
          fst (dial_loop (dial env) (ctx_done env) 0 0 []) = Connected \<longrightarrow>
          packet_write_err env = None \<longrightarrow>
            sz = total_size hs \<and>
            take (4 + total_size hs) (conn_written (ServeHTTP env r)) = spec_packet hs)"
proof -
  have fits: "\<forall>h\<in>set hs. \<not> too_large h"
    using assms too_large_total [of _ hs] by fastforce
  have a: "check_size hs = Some (total_size hs)"
    using assms fits by (simp add: check_size_eq)
  have b: "take (4 + total_size hs) (conn_written (ServeHTTP env r)) = spec_packet hs"
    if built: "build_headers env r = Inr (hs, sz)"
      and conn: "fst (dial_loop (dial env) (ctx_done env) 0 0 []) = Connected"
      and wr: "packet_write_err env = None"
  proof -
    from built have sz: "sz = total_size hs" by (simp add: build_headers_Inr_iff)
    obtain n ws where "dial_loop (dial env) (ctx_done env) 0 0 [] = (Connected, n, ws)"
      using conn by (cases "dial_loop (dial env) (ctx_done env) 0 0 []") simp
    from ServeHTTP_Connected [OF built this]
    have "conn_written (ServeHTTP env r) = fst (snd (exchange env r hs sz))" by simp
    with exchange_packet [OF wr, of sz hs r] show ?thesis
      by (simp add: sz encode_packet_layout length_spec_packet)
  qed
  have c: "sz = total_size hs" if "build_headers env r = Inr (hs, sz)"
    using that by (simp add: build_headers_Inr_iff)
  have d: "total_size hs = (\<Sum>h\<leftarrow>hs. length (name h) + length (value h) + 4)"
    by (simp add: total_size_def)
  show ?thesis
    using a b c d encode_packet_layout [of hs] length_spec_packet [of hs] by blast
qed

theorem packet_layout_witness:
  "total_size example_headers \<le> 65535 \<and>
   build_headers example_env example_request = Inr (example_headers, 282) \<and>
   fst (dial_loop (dial example_env) (ctx_done example_env) 0 0 []) = Connected \<and>
   packet_write_err example_env = None \<and>
   check_size example_headers = Some 282 \<and>
   encode_packet 282 example_headers = spec_packet example_headers \<and>
   length (spec_packet example_headers) = 286 \<and>
   take 286 (conn_written (ServeHTTP example_env example_request)) = spec_packet example_headers"
proof -
  have h: "total_size example_headers \<le> 65535" by (simp add: example_total)
  have b: "build_headers example_env example_request = Inr (example_headers, 282)"
    by (rule example_build) (simp_all add: example_env_def)
  have d: "fst (dial_loop (dial example_env) (ctx_done example_env) 0 0 []) = Connected"
    by (simp add: dial_loop_Conn example_env_def)
  have w: "packet_write_err example_env = None" by (simp add: example_env_def)
  from packet_layout [OF h, of example_env example_request 282] b d w h show ?thesis
    by (simp add: example_total)
qed

text \<open>
  C2. For every sequence of pairs in which each name and each value is at most 65535
  bytes long and whose total encoded size is at most 65535, decoding the packet the
  encoder builds (the four bytes of the prefix, then length-prefixed names and values
  until the payload is used up) gives back the same sequence of pairs.
\<close>

theorem decode_encode_roundtrip:
  assumes "\<forall>h\<in>set hs. length (name h) \<le> 65535 \<and> length (value h) \<le> 65535"
    and "total_size hs \<le> 65535"
  shows "spec_decode_packet (encode_packet (total_size hs) hs) = Some hs"
proof -
  have fits: "\<forall>h\<in>set hs. \<not> too_large h"
    using assms(1) by (auto simp: too_large_def)
  have lo: "total_size hs < 65536" using assms(2) by simp
  have sz: "rd16 (of_nat (total_size hs mod 256)) (of_nat (total_size hs div 256)) = total_size hs"
    using rd16_le16 [OF lo] by (simp add: le16_def)
  show ?thesis
    unfolding encode_packet_layout
    by (simp add: spec_packet_def le16_def spec_decode_packet_def sz length_entries
        decode_entries_roundtrip [OF fits])
qed

theorem decode_encode_roundtrip_witness:
  "total_size example_headers \<le> 65535 \<and>
   spec_decode_packet (encode_packet 282 example_headers) = Some example_headers"
proof -
  have f: "\<forall>h\<in>set example_headers. length (name h) \<le> 65535 \<and> length (value h) \<le> 65535"
    by (simp add: example_headers_def)
  have t: "total_size example_headers \<le> 65535" by (simp add: example_total)
  from decode_encode_roundtrip [OF f t] f t show ?thesis by (simp add: example_total)
qed

text \<open>
  C3. When the request has passed the checks of the header mapper, every call of the
  connect function fails with a temporary error and the context is not cancelled during
  the waits, the handler waits 5, 10, 20, 40, 80, 160, 320 and 640 ms, each wait after a
  failed attempt and twice as long as the one before; after the ninth attempt the delay
  would be 1280 ms, more than a second, so the handler stops and answers 504 Gateway
  Timeout. It has made exactly nine attempts and waited 1275 ms in all, has no
  connection and has written nothing to one.
\<close>

theorem always_temporary_times_out:
  assumes "build_headers env r = Inr (hs, sz)"
    and "\<forall>n. dial env n = Temporary"
    and "\<forall>n. \<not> ctx_done env n"
  shows "ServeHTTP env r =
           \<lparr>response = Some (Error (StatusText StatusGatewayTimeout) StatusGatewayTimeout),
            panicked = False, dial_calls = 9,
            waits = map (\<lambda>ms. ms * Millisecond) [5, 10, 20, 40, 80, 160, 320, 640],
            connected = False, conn_written = [], logged = [BackendConnect]\<rparr> \<and>
         StatusGatewayTimeout = 504 \<and>
         sum_list (waits (ServeHTTP env r)) = 1275 * Millisecond"
proof -
  have "dial_loop (dial env) (ctx_done env) 0 0 [] =
          dial_loop (dial env) (ctx_done env) 8 (backoff 7) (map backoff [0..<8])"
    using dial_loop_retries [of 8 "dial env" "ctx_done env"] assms(2,3) by simp
  also have "\<dots> = (Failed StatusGatewayTimeout, 9, map backoff [0..<8])"
    using assms(2)
    by (simp add: dial_loop_Temporary [where n = 8] backoff_def Second_def Millisecond_def)
  finally have loop: "dial_loop (dial env) (ctx_done env) 0 0 [] =
      (Failed StatusGatewayTimeout, 9, map backoff [0..<8])" .
  have ws: "map backoff [0..<8] = map (\<lambda>ms. ms * Millisecond) [5, 10, 20, 40, 80, 160, 320, 640]"
    by (simp add: backoff_def upt_rec)
  show ?thesis
    unfolding ServeHTTP_Failed [OF assms(1) loop] ws
    by (simp add: StatusGatewayTimeout_def)
qed

theorem always_temporary_times_out_witness:
  "ServeHTTP (example_env\<lparr>dial := \<lambda>n. Temporary\<rparr>) example_request =
     \<lparr>response = Some (Error (StatusText 504) 504), panicked = False, dial_calls = 9,
      waits = [5000000, 10000000, 20000000, 40000000, 80000000, 160000000, 320000000,
               640000000],
      connected = False, conn_written = [], logged = [BackendConnect]\<rparr> \<and>
   sum_list (waits (ServeHTTP (example_env\<lparr>dial := \<lambda>n. Temporary\<rparr>) example_request)) =
     1275000000"
proof -
  have b: "build_headers (example_env\<lparr>dial := \<lambda>n. Temporary\<rparr>) example_request =
             Inr (example_headers, 282)"
    by (rule example_build) (simp_all add: example_env_def)
  have d: "\<forall>n. dial (example_env\<lparr>dial := \<lambda>n. Temporary\<rparr>) n = Temporary" by simp
  have c: "\<forall>n. \<not> ctx_done (example_env\<lparr>dial := \<lambda>n. Temporary\<rparr>) n"
    by (simp add: example_env_def)
  from always_temporary_times_out [OF b d c] show ?thesis
    by (simp add: Millisecond_def StatusGatewayTimeout_def)
qed




text \<open>
  C6. Take a request that has passed the checks of the header mapper, and let the first
  \<open>n\<close> attempts to connect fail with a temporary error, each followed by a wait that ran
  to its end. If attempt \<open>n\<close> (there is one when \<open>n \<le> 8\<close>) returns
  \<open>context.Canceled\<close>, or if it fails with a temporary error and the context is cancelled
  during the wait that follows (there is one when \<open>n \<le> 7\<close>), the handler panics with
  \<open>http.ErrAbortHandler\<close>: it writes no response, makes no attempt after this one, has no
  connection and writes nothing to one.
\<close>

theorem cancellation_aborts:
  assumes "build_headers env r = Inr (hs, sz)"
    and "\<forall>i<n. dial env i = Temporary \<and> \<not> ctx_done env i"
    and "(dial env n = Canceled \<and> n \<le> 8) \<or> (dial env n = Temporary \<and> ctx_done env n \<and> n \<le> 7)"
  shows "ServeHTTP env r =
           \<lparr>response = None, panicked = True, dial_calls = Suc n,
            waits = map backoff [0..<n] @ (if dial env n = Temporary then [backoff n] else []),
            connected = False, conn_written = [], logged = []\<rparr>"
proof -
  from assms(3) have n: "n \<le> 8" by auto
  let ?d = "if n = 0 then 0 else backoff (n - 1)"
  have start: "dial_loop (dial env) (ctx_done env) 0 0 [] =
      dial_loop (dial env) (ctx_done env) n ?d (map backoff [0..<n])"
    by (rule dial_loop_retries [OF assms(2) n])
  have d: "(if ?d = 0 then 5 * Millisecond else ?d * 2) = backoff n"
    using backoff_pos [of "n - 1"] backoff_Suc [of "n - 1"] by (cases n) (simp_all add: backoff_def)
  from assms(3) have "dial_loop (dial env) (ctx_done env) n ?d (map backoff [0..<n]) =
      (Abort, Suc n, map backoff [0..<n] @ (if dial env n = Temporary then [backoff n] else []))"
  proof
    assume "dial env n = Canceled \<and> n \<le> 8"
    then show ?thesis by (simp add: dial_loop_Canceled)
  next
    assume a: "dial env n = Temporary \<and> ctx_done env n \<and> n \<le> 7"
    then have "\<not> backoff n > Second" using backoff_le_Second [of n] by simp
    with a show ?thesis
      by (simp add: dial_loop_Temporary [where n = n] d Let_def del: One_nat_def)
  qed
  with start have "dial_loop (dial env) (ctx_done env) 0 0 [] =
      (Abort, Suc n, map backoff [0..<n] @ (if dial env n = Temporary then [backoff n] else []))"
    by simp
  from ServeHTTP_Abort [OF assms(1) this] show ?thesis .
qed

theorem cancellation_aborts_witness:
  "ServeHTTP (example_env\<lparr>dial := \<lambda>n. if n < 2 then Temporary else Canceled\<rparr>) example_request =
     \<lparr>response = None, panicked = True, dial_calls = 3, waits = [5000000, 10000000],
      connected = False, conn_written = [], logged = []\<rparr> \<and>
   ServeHTTP (example_env\<lparr>dial := \<lambda>n. Temporary, ctx_done := \<lambda>n. n = 2\<rparr>) example_request =
     \<lparr>response = None, panicked = True, dial_calls = 3, waits = [5000000, 10000000, 20000000],
      connected = False, conn_written = [], logged = []\<rparr>"
proof -
  let ?e1 = "example_env\<lparr>dial := \<lambda>n. if n < 2 then Temporary else Canceled\<rparr>"
  let ?e2 = "example_env\<lparr>dial := \<lambda>n. Temporary, ctx_done := \<lambda>n. n = 2\<rparr>"
  have b1: "build_headers ?e1 example_request = Inr (example_headers, 282)"
    by (rule example_build) (simp_all add: example_env_def)
  have b2: "build_headers ?e2 example_request = Inr (example_headers, 282)"
    by (rule example_build) (simp_all add: example_env_def)
  have p1: "\<forall>i<2. dial ?e1 i = Temporary \<and> \<not> ctx_done ?e1 i"
    by (simp add: example_env_def)
  have p2: "\<forall>i<2. dial ?e2 i = Temporary \<and> \<not> ctx_done ?e2 i"
    by simp
  have c1: "(dial ?e1 2 = Canceled \<and> (2::nat) \<le> 8) \<or> (dial ?e1 2 = Temporary \<and> ctx_done ?e1 2 \<and> (2::nat) \<le> 7)"
    by simp
  have c2: "(dial ?e2 2 = Canceled \<and> (2::nat) \<le> 8) \<or> (dial ?e2 2 = Temporary \<and> ctx_done ?e2 2 \<and> (2::nat) \<le> 7)"
    by simp
  have w: "[0..<2] = [0, 1]" by (simp add: upt_rec)
  from cancellation_aborts [OF b1 p1 c1] cancellation_aborts [OF b2 p2 c2] show ?thesis
    by (simp add: w backoff_def Millisecond_def)
qed

text \<open>
  C4. When a name or a value of the header set of a request (the positional fields and
  the transformed inbound headers) is longer than 65535 bytes, or when each of them is
  within this bound and the total encoded size of the set is more than 65535, the
  handler answers with a 4xx status; it does not call the connect function, obtains no
  connection and writes nothing to one.
\<close>

theorem oversized_rejected:
  assumes "(\<exists>h\<in>set (all_headers env r). length (name h) > 65535 \<or> length (value h) > 65535) \<or>
           ((\<forall>h\<in>set (all_headers env r). length (name h) \<le> 65535 \<and> length (value h) \<le> 65535) \<and>
            total_size (all_headers env r) > 65535)"
  shows "\<exists>resp. client_error resp \<and>
           ServeHTTP env r =
             \<lparr>response = Some resp, panicked = False, dial_calls = 0, waits = [],
              connected = False, conn_written = [], logged = []\<rparr>"
proof -
  have "build_headers env r \<noteq> Inr (all_headers env r, total_size (all_headers env r))"
    using assms by (auto simp: build_headers_Inr_iff too_large_def)
  with build_headers_cases [of env r] obtain resp where resp: "build_headers env r = Inl resp"
    by blast
  from build_headers_Inl [OF resp] ServeHTTP_rejected [OF resp] show ?thesis
    by (auto simp: no_contact_def)
qed

lemma big_all_headers:
  "all_headers big_env big_request =
     positional_headers big_request @ [\<lparr>name = ''HTTP_X_BIG'', value = replicate 65536 CHR ''a''\<rparr>]"
  by (simp add: all_headers_def transformed_headers_def big_env_def big_request_def
      example_env_def http_hdr_def ascii_upper_def ascii_upper_char_def)

lemma bulky_positional: "positional_headers bulky_request = take 8 example_headers @
    [\<lparr>name = ''SERVER_PORT'', value = ''8080''\<rparr>, \<lparr>name = ''REMOTE_ADDR'', value = ''9.9.9.9''\<rparr>,
     \<lparr>name = ''REMOTE_PORT'', value = ''555''\<rparr>]"
  by (simp add: positional_headers_def request_headers_def server_headers_def remote_headers_def
      bulky_request_def example_request_def example_headers_def Get_def FormatInt_def formatBits.simps
      SplitHostPort_def LastIndexByte_def forwarded_for_def)

lemma bulky_all_headers:
  "all_headers bulky_env bulky_request =
     positional_headers bulky_request @
     [\<lparr>name = ''HTTP_X_ONE'', value = replicate 40000 CHR ''a''\<rparr>,
      \<lparr>name = ''HTTP_X_TWO'', value = replicate 40000 CHR ''b''\<rparr>]"
  by (simp add: all_headers_def transformed_headers_def bulky_env_def
      bulky_request_def example_env_def http_hdr_def ascii_upper_def ascii_upper_char_def)

lemma bulky_within_bounds:
  "\<forall>h\<in>set (all_headers bulky_env bulky_request). length (name h) \<le> 65535 \<and> length (value h) \<le> 65535"
  by (simp add: bulky_all_headers bulky_positional example_headers_def)

lemma bulky_total: "total_size (all_headers bulky_env bulky_request) = 80252"
  by (simp add: bulky_all_headers bulky_positional example_headers_def total_size_def)

theorem oversized_rejected_witness:
  "(\<exists>resp. client_error resp \<and>
      ServeHTTP big_env big_request =
        \<lparr>response = Some resp, panicked = False, dial_calls = 0, waits = [],
         connected = False, conn_written = [], logged = []\<rparr>) \<and>
   total_size (all_headers bulky_env bulky_request) = 80252 \<and>
   (\<exists>resp. client_error resp \<and>
      ServeHTTP bulky_env bulky_request =
        \<lparr>response = Some resp, panicked = False, dial_calls = 0, waits = [],
         connected = False, conn_written = [], logged = []\<rparr>)"
proof -
  have big: "\<exists>h\<in>set (all_headers big_env big_request). length (name h) > 65535 \<or> length (value h) > 65535"
    by (simp add: big_all_headers)
  have bulky: "(\<forall>h\<in>set (all_headers bulky_env bulky_request).
                  length (name h) \<le> 65535 \<and> length (value h) \<le> 65535) \<and>
               total_size (all_headers bulky_env bulky_request) > 65535"
    using bulky_within_bounds by (simp add: bulky_total)
  from oversized_rejected [OF disjI1, OF big] oversized_rejected [OF disjI2, OF bulky] bulky_total
  show ?thesis by blast
qed

text \<open>
  C7, amended. In the header set of a request whose URL scheme is \<open>https\<close>, or whose
  \<open>X-Forwarded-Proto\<close> header is \<open>https\<close>, \<open>HTTPS\<close> is \<open>on\<close> and \<open>SERVER_PORT\<close> is \<open>443\<close>,
  whatever the local address. For every other request: when the context holds no local
  address, \<open>SERVER_PORT\<close> is \<open>80\<close>; when it holds one that splits into host and port,
  \<open>SERVER_PORT\<close> is that port; when it holds one that does not split (the path of a Unix
  socket), the header set has no \<open>SERVER_PORT\<close>.
\<close>

theorem server_port_field:
  assumes "build_headers env r = Inr (hs, sz)"
  shows "(URL_Scheme r = ''https'' \<or> Get (Header r) ''X-Forwarded-Proto'' = ''https'' \<longrightarrow>
            fields hs ''HTTPS'' = [''on''] \<and> fields hs ''SERVER_PORT'' = [''443'']) \<and>
         (URL_Scheme r \<noteq> ''https'' \<and> Get (Header r) ''X-Forwarded-Proto'' \<noteq> ''https'' \<longrightarrow>
            fields hs ''SERVER_PORT'' =
              (case LocalAddr r of
                 None \<Rightarrow> [''80'']
               | Some addr \<Rightarrow>
                   (case SplitHostPort addr of Some (host, port) \<Rightarrow> [port] | None \<Rightarrow> [])))"
proof -
  from assms have hs: "hs = all_headers env r" by (simp add: build_headers_Inr_iff)
  have req: "fields (request_headers r) ''HTTPS'' = []" "fields (request_headers r) ''SERVER_PORT'' = []"
    by (simp_all add: fields_def request_headers_def)
  have rem: "fields (remote_headers r) ''HTTPS'' = []" "fields (remote_headers r) ''SERVER_PORT'' = []"
    by (simp_all add: fields_def remote_headers_def Let_def split: option.splits)
  have a: "fields hs ''HTTPS'' = fields (server_headers r) ''HTTPS''"
    unfolding hs by (simp add: fields_all_headers req rem)
  have b: "fields hs ''SERVER_PORT'' = fields (server_headers r) ''SERVER_PORT''"
    unfolding hs by (simp add: fields_all_headers req rem)
  show ?thesis
    unfolding a b by (auto simp: fields_def server_headers_def split: option.splits)
qed

theorem server_port_field_witness:
  "fields example_headers ''SERVER_PORT'' = [''8080''] \<and>
   LocalAddr example_request = Some ''127.0.0.1:8080'' \<and>
   build_headers example_env https_request =
     Inr (all_headers example_env https_request, 292) \<and>
   fields (all_headers example_env https_request) ''HTTPS'' = [''on''] \<and>
   fields (all_headers example_env https_request) ''SERVER_PORT'' = [''443'']"
proof -
  have b: "build_headers example_env example_request = Inr (example_headers, 282)"
    by (rule example_build) (simp_all add: example_env_def)
  have s: "URL_Scheme example_request \<noteq> ''https'' \<and>
           Get (Header example_request) ''X-Forwarded-Proto'' \<noteq> ''https''"
    by (simp add: example_request_def Get_def)
  have l: "LocalAddr example_request = Some ''127.0.0.1:8080''"
    by (simp add: example_request_def)
  have p: "SplitHostPort ''127.0.0.1:8080'' = Some (''127.0.0.1'', ''8080'')"
    by (simp add: SplitHostPort_def LastIndexByte_def)
  have pos: "positional_headers https_request = take 8 example_headers @
      [\<lparr>name = ''HTTPS'', value = ''on''\<rparr>, \<lparr>name = ''SERVER_PORT'', value = ''443''\<rparr>,
       \<lparr>name = ''REMOTE_ADDR'', value = ''1.2.3.4''\<rparr>, \<lparr>name = ''REMOTE_PORT'', value = ''555''\<rparr>]"
    by (simp add: positional_headers_def request_headers_def server_headers_def remote_headers_def
        https_request_def example_request_def example_headers_def Get_def
        FormatInt_def formatBits.simps
        SplitHostPort_def LastIndexByte_def forwarded_for_def)
  have tr: "transformed_headers (up example_env) (Header https_request) (range_order example_env) =
      drop 11 example_headers"
    by (simp add: transformed_headers_def example_env_def https_request_def example_request_def
        example_headers_def
        http_hdr_def ascii_upper_def ascii_upper_char_def)
  have all: "all_headers example_env https_request = take 8 example_headers @
      [\<lparr>name = ''HTTPS'', value = ''on''\<rparr>, \<lparr>name = ''SERVER_PORT'', value = ''443''\<rparr>,
       \<lparr>name = ''REMOTE_ADDR'', value = ''1.2.3.4''\<rparr>, \<lparr>name = ''REMOTE_PORT'', value = ''555''\<rparr>] @
      drop 11 example_headers"
    by (simp add: all_headers_def pos tr)
  have t: "total_size (all_headers example_env https_request) = 292"
    unfolding all by (simp add: total_size_def example_headers_def)
  have f: "\<forall>h\<in>set (all_headers example_env https_request). \<not> too_large h"
    unfolding all by (simp add: too_large_def example_headers_def)
  have g: "Get (Header https_request) ''Trailer'' = []"
    by (simp add: https_request_def example_request_def Get_def)
  have b': "build_headers example_env https_request = Inr (all_headers example_env https_request, 292)"
    using t f g by (simp add: build_headers_Inr_iff)
  have s': "URL_Scheme https_request = ''https''" by (simp add: https_request_def)
  from server_port_field [OF b] server_port_field [OF b'] s s' l p b' show ?thesis
    by simp
qed

text \<open>
  C7 as it is written fails for a request served on a Unix socket: the scheme is not
  \<open>https\<close>, the context holds a local address, and the header set has no \<open>SERVER_PORT\<close>,
  since the address is a path and does not split into host and port.
\<close>

theorem server_port_absent:
  "URL_Scheme unix_request = ''http'' \<and>
   Get (Header unix_request) ''X-Forwarded-Proto'' = [] \<and>
   LocalAddr unix_request = Some ''/run/uwsgi.sock'' \<and>
   build_headers example_env unix_request = Inr (all_headers example_env unix_request, 263) \<and>
   map name (all_headers example_env unix_request) =
     [''QUERY_STRING'', ''REQUEST_METHOD'', ''CONTENT_TYPE'', ''CONTENT_LENGTH'', ''REQUEST_URI'',
      ''PATH_INFO'', ''SERVER_PROTOCOL'', ''SERVER_NAME'', ''REMOTE_ADDR'', ''REMOTE_PORT'',
      ''HTTP_ACCEPT'', ''HTTP_X_FORWARDED_FOR''] \<and>
   fields (all_headers example_env unix_request) ''SERVER_PORT'' = []"
proof -
  have pos: "positional_headers unix_request = take 8 example_headers @
      [\<lparr>name = ''REMOTE_ADDR'', value = ''1.2.3.4''\<rparr>, \<lparr>name = ''REMOTE_PORT'', value = ''555''\<rparr>]"
    by (simp add: positional_headers_def request_headers_def server_headers_def remote_headers_def
        unix_request_def example_request_def example_headers_def Get_def FormatInt_def
        formatBits.simps SplitHostPort_def LastIndexByte_def forwarded_for_def)
  have tr: "transformed_headers (up example_env) (Header unix_request) (range_order example_env) =
      drop 11 example_headers"
    by (simp add: transformed_headers_def example_env_def unix_request_def example_request_def
        example_headers_def http_hdr_def ascii_upper_def ascii_upper_char_def)
  have all: "all_headers example_env unix_request = take 8 example_headers @
      [\<lparr>name = ''REMOTE_ADDR'', value = ''1.2.3.4''\<rparr>, \<lparr>name = ''REMOTE_PORT'', value = ''555''\<rparr>] @
      drop 11 example_headers"
    by (simp add: all_headers_def pos tr)
  have t: "total_size (all_headers example_env unix_request) = 263"
    unfolding all by (simp add: total_size_def example_headers_def)
  have f: "\<forall>h\<in>set (all_headers example_env unix_request). \<not> too_large h"
    unfolding all by (simp add: too_large_def example_headers_def)
  have g: "Get (Header unix_request) ''Trailer'' = []"
    by (simp add: unix_request_def example_request_def Get_def)
  have b: "build_headers example_env unix_request = Inr (all_headers example_env unix_request, 263)"
    using t f g by (simp add: build_headers_Inr_iff)
  have n: "map name (all_headers example_env unix_request) =
     [''QUERY_STRING'', ''REQUEST_METHOD'', ''CONTENT_TYPE'', ''CONTENT_LENGTH'', ''REQUEST_URI'',
      ''PATH_INFO'', ''SERVER_PROTOCOL'', ''SERVER_NAME'', ''REMOTE_ADDR'', ''REMOTE_PORT'',
      ''HTTP_ACCEPT'', ''HTTP_X_FORWARDED_FOR'']"
    unfolding all by (simp add: example_headers_def)
  have e: "fields (all_headers example_env unix_request) ''SERVER_PORT'' = []"
    unfolding all by (simp add: fields_def example_headers_def)
  have r: "URL_Scheme unix_request = ''http''"
    "Get (Header unix_request) ''X-Forwarded-Proto'' = []"
    "LocalAddr unix_request = Some ''/run/uwsgi.sock''"
    by (simp_all add: unix_request_def example_request_def Get_def)
  from b n e r show ?thesis by simp
qed

text \<open>
  C8. With a forwarding header, \<open>REMOTE_ADDR\<close> is to be the left-most comma-separated entry
  of the header; the comment on \<open>Handler\<close> says the same: \<open>leftmost value from
  X-Forwarded-For header if present\<close>. The code breaks this for a header that starts
  with a comma: line 85 cuts the value only at a comma whose index is greater than 0, so
  for \<open>, 5.6.7.6\<close>, whose left-most entry is empty, the request is accepted and
  \<open>REMOTE_ADDR\<close> is the whole value \<open>, 5.6.7.6\<close>.
\<close>

theorem remote_addr_leading_comma:
  "Get (Header comma_request) ''X-Forwarded-For'' = '', 5.6.7.6'' \<and>
   leftmost_entry '', 5.6.7.6'' = [] \<and>
   build_headers comma_env comma_request = Inr (all_headers comma_env comma_request, 259) \<and>
   fields (all_headers comma_env comma_request) ''REMOTE_ADDR'' = ['', 5.6.7.6'']"
proof -
  have pos: "positional_headers comma_request = take 9 example_headers @
      [\<lparr>name = ''REMOTE_ADDR'', value = '', 5.6.7.6''\<rparr>, \<lparr>name = ''REMOTE_PORT'', value = ''555''\<rparr>]"
    by (simp add: positional_headers_def request_headers_def server_headers_def remote_headers_def
        comma_request_def example_request_def example_headers_def Get_def FormatInt_def
        formatBits.simps SplitHostPort_def LastIndexByte_def forwarded_for_def)
  have tr: "transformed_headers (up comma_env) (Header comma_request) (range_order comma_env) =
      [\<lparr>name = ''HTTP_X_FORWARDED_FOR'', value = '', 5.6.7.6''\<rparr>]"
    by (simp add: transformed_headers_def comma_env_def example_env_def comma_request_def
        example_request_def http_hdr_def ascii_upper_def ascii_upper_char_def)
  have all: "all_headers comma_env comma_request = take 9 example_headers @
      [\<lparr>name = ''REMOTE_ADDR'', value = '', 5.6.7.6''\<rparr>, \<lparr>name = ''REMOTE_PORT'', value = ''555''\<rparr>,
       \<lparr>name = ''HTTP_X_FORWARDED_FOR'', value = '', 5.6.7.6''\<rparr>]"
    by (simp add: all_headers_def pos tr)
  have t: "total_size (all_headers comma_env comma_request) = 259"
    unfolding all by (simp add: total_size_def example_headers_def)
  have f: "\<forall>h\<in>set (all_headers comma_env comma_request). \<not> too_large h"
    unfolding all by (simp add: too_large_def example_headers_def)
  have g: "Get (Header comma_request) ''Trailer'' = []"
    "Get (Header comma_request) ''X-Forwarded-For'' = '', 5.6.7.6''"
    by (simp_all add: comma_request_def example_request_def Get_def)
  have b: "build_headers comma_env comma_request = Inr (all_headers comma_env comma_request, 259)"
    using t f g by (simp add: build_headers_Inr_iff)
  have e: "fields (all_headers comma_env comma_request) ''REMOTE_ADDR'' = ['', 5.6.7.6'']"
    unfolding all by (simp add: fields_def example_headers_def)
  have l: "leftmost_entry '', 5.6.7.6'' = []" by (simp add: leftmost_entry_def)
  from b e g l show ?thesis by simp
qed

text \<open>
  C10. Every request the header mapper accepts (an empty \<open>r.Header.Get("Trailer")\<close>, a
  header set of at most 65535 bytes) gets a header set whose fourth pair is \<open>CONTENT_LENGTH\<close> with the
  signed decimal rendering of the request's \<open>ContentLength\<close>: an optional minus sign and
  digits that denote this number; no other pair has this name. For a request whose body
  length is unknown, \<open>ContentLength = -1\<close>, the pair is \<open>CONTENT_LENGTH\<close>, \<open>-1\<close>: the field is
  neither left out nor rendered unsigned. The pair is sent to the backend: when the
  handler has a connection and the write of the packet does not fail, the bytes written
  to the connection hold the encoded pair, after the four bytes of the prefix and the
  three pairs before it.
\<close>

theorem content_length_field:
  assumes "Get (Header r) ''Trailer'' = []"
    and "total_size (all_headers env r) \<le> 65535"
  shows "\<exists>hs sz. build_headers env r = Inr (hs, sz) \<and>
           hs ! 3 = \<lparr>name = ''CONTENT_LENGTH'', value = FormatInt (ContentLength r)\<rparr> \<and>
           fields hs ''CONTENT_LENGTH'' = [FormatInt (ContentLength r)] \<and>
           signed_decimal (FormatInt (ContentLength r)) \<and>
           signed_decimal_value (FormatInt (ContentLength r)) = ContentLength r \<and>
           (ContentLength r = - 1 \<longrightarrow> hs ! 3 = \<lparr>name = ''CONTENT_LENGTH'', value = ''-1''\<rparr>) \<and>
           (fst (dial_loop (dial env) (ctx_done env) 0 0 []) = Connected \<longrightarrow>
            packet_write_err env = None \<longrightarrow>
              take (length (spec_entry (hs ! 3)))
                (drop (4 + total_size (take 3 hs)) (conn_written (ServeHTTP env r))) =
              spec_entry \<lparr>name = ''CONTENT_LENGTH'', value = FormatInt (ContentLength r)\<rparr>)"
proof -
  let ?hs = "all_headers env r"
  let ?p = "\<lparr>name = ''CONTENT_LENGTH'', value = FormatInt (ContentLength r)\<rparr>"
  have b: "build_headers env r = Inr (?hs, total_size ?hs)"
    by (rule build_headers_accepts [OF assms])
  have nth: "?hs ! 3 = ?p"
    by (simp add: all_headers_def positional_headers_def request_headers_def)
  have srv: "fields (server_headers r) ''CONTENT_LENGTH'' = []"
    by (simp add: fields_def server_headers_def split: option.splits)
  have rem: "fields (remote_headers r) ''CONTENT_LENGTH'' = []"
    by (simp add: fields_def remote_headers_def Let_def split: option.splits)
  have f: "fields ?hs ''CONTENT_LENGTH'' = [FormatInt (ContentLength r)]"
    by (simp add: fields_all_headers srv rem) (simp add: fields_def request_headers_def)
  have m: "FormatInt (- 1) = ''-1''" by (simp add: FormatInt_def formatBits.simps)
  have w: "take (length (spec_entry (?hs ! 3)))
             (drop (4 + total_size (take 3 ?hs)) (conn_written (ServeHTTP env r))) = spec_entry ?p"
    if conn: "fst (dial_loop (dial env) (ctx_done env) 0 0 []) = Connected"
      and wr: "packet_write_err env = None"
  proof -
    from ServeHTTP_packet [OF b conn wr]
    have "conn_written (ServeHTTP env r) =
        spec_packet ?hs @ drop (4 + total_size ?hs) (conn_written (ServeHTTP env r))"
      by (metis append_take_drop_id)
    with fourth_entry_in_packet [OF length_all_headers, of env r] show ?thesis
      by (metis nth)
  qed
  show ?thesis
    using b nth f m w signed_decimal_FormatInt [of "ContentLength r"]
      signed_decimal_value_FormatInt [of "ContentLength r"]
    by (intro exI [of _ ?hs] exI [of _ "total_size ?hs"]) auto
qed

theorem content_length_field_witness:
  "ContentLength example_request = - 1 \<and>
   build_headers example_env example_request = Inr (example_headers, 282) \<and>
   example_headers ! 3 = \<lparr>name = ''CONTENT_LENGTH'', value = ''-1''\<rparr> \<and>
   take 20 (drop 60 (conn_written (ServeHTTP example_env example_request))) =
     [14, 0, 67, 79, 78, 84, 69, 78, 84, 95, 76, 69, 78, 71, 84, 72, 2, 0, 45, 49]"
proof -
  have b: "build_headers example_env example_request = Inr (example_headers, 282)"
    by (rule example_build) (simp_all add: example_env_def)
  have c: "ContentLength example_request = - 1" by (simp add: example_request_def)
  have t: "total_size (all_headers example_env example_request) \<le> 65535"
    by (simp add: example_all_headers example_total)
  have d: "fst (dial_loop (dial example_env) (ctx_done example_env) 0 0 []) = Connected"
    by (simp add: dial_loop_Conn example_env_def)
  have w: "packet_write_err example_env = None" by (simp add: example_env_def)
  have o: "4 + total_size (take 3 example_headers) = 60"
    by (simp add: example_headers_def total_size_def)
  have l: "length (spec_entry \<lparr>name = ''CONTENT_LENGTH'', value = ''-1''\<rparr>) = 20"
    by (simp add: length_spec_entry)
  have e: "spec_entry \<lparr>name = ''CONTENT_LENGTH'', value = ''-1''\<rparr> =
      [14, 0, 67, 79, 78, 84, 69, 78, 84, 95, 76, 69, 78, 71, 84, 72, 2, 0, 45, 49]"
    by (simp add: spec_entry_def le16_def bytes_of_def byte_of_char_def)
  from content_length_field [OF example_no_trailer t]
  have r: "example_headers ! 3 =
        \<lparr>name = ''CONTENT_LENGTH'', value = FormatInt (ContentLength example_request)\<rparr> \<and>
      (ContentLength example_request = - 1 \<longrightarrow>
         example_headers ! 3 = \<lparr>name = ''CONTENT_LENGTH'', value = ''-1''\<rparr>) \<and>
      (fst (dial_loop (dial example_env) (ctx_done example_env) 0 0 []) = Connected \<longrightarrow>
       packet_write_err example_env = None \<longrightarrow>
         take (length (spec_entry (example_headers ! 3)))
           (drop (4 + total_size (take 3 example_headers))
              (conn_written (ServeHTTP example_env example_request))) =
         spec_entry \<lparr>name = ''CONTENT_LENGTH'', value = FormatInt (ContentLength example_request)\<rparr>)"
    unfolding b by (elim exE conjE) clarsimp
  from r c have n: "example_headers ! 3 = \<lparr>name = ''CONTENT_LENGTH'', value = ''-1''\<rparr>"
    by blast
  from r n have v: "FormatInt (ContentLength example_request) = ''-1''" by simp
  from r d w have "take (length (spec_entry (example_headers ! 3)))
      (drop (4 + total_size (take 3 example_headers))
         (conn_written (ServeHTTP example_env example_request))) =
      spec_entry \<lparr>name = ''CONTENT_LENGTH'', value = ''-1''\<rparr>"
    unfolding v by blast
  then have "take 20 (drop 60 (conn_written (ServeHTTP example_env example_request))) =
      spec_entry \<lparr>name = ''CONTENT_LENGTH'', value = ''-1''\<rparr>"
    unfolding n o l .
  then have "take 20 (drop 60 (conn_written (ServeHTTP example_env example_request))) =
      [14, 0, 67, 79, 78, 84, 69, 78, 84, 95, 76, 69, 78, 71, 84, 72, 2, 0, 45, 49]"
    unfolding e .
  with b c n show ?thesis by simp
qed

text \<open>
  C9, amended. For a fixed request the positional fields come first, in a fixed order,
  the same in every execution. They are followed by one transformed pair for each
  inbound header, in the order in which this execution ranges over the header map,
  which Go does not fix: a second execution accepts the request as well, with the same
  size, the same positional fields and the same transformed pairs, the latter in the
  order of its own iteration, a permutation of the first.
\<close>

theorem header_order:
  assumes "key_order (Header r) (range_order env)"
    and "key_order (Header r) (range_order env')"
    and "up env' = up env"
    and "build_headers env r = Inr (hs, sz)"
  shows "hs = positional_headers r @
              map (\<lambda>k. http_hdr (up env) k (the (Header r k))) (range_order env) \<and>
         build_headers env' r =
           Inr (positional_headers r @
                map (\<lambda>k. http_hdr (up env) k (the (Header r k))) (range_order env'), sz) \<and>
         mset (range_order env') = mset (range_order env)"
proof -
  let ?g = "\<lambda>k. http_hdr (up env) k (the (Header r k))"
  have t: "transformed_headers (up env) (Header r) (range_order env) = map ?g (range_order env)"
    using assms(1) by (intro transformed_headers_map) (simp add: key_order_def)
  have t': "transformed_headers (up env') (Header r) (range_order env') = map ?g (range_order env')"
    using assms(2) unfolding assms(3)
    by (intro transformed_headers_map) (simp add: key_order_def)
  have perm: "mset (range_order env') = mset (range_order env)"
    by (rule key_order_mset [OF assms(1,2)])
  from assms(4) [unfolded build_headers_Inr_iff]
  have b: "Get (Header r) ''Trailer'' = []" "hs = all_headers env r"
    "\<forall>h\<in>set hs. \<not> too_large h" "total_size hs \<le> 65535" "sz = total_size hs"
    by blast+
  have hs: "hs = positional_headers r @ map ?g (range_order env)"
    using b(2) by (simp add: all_headers_def t)
  have all': "all_headers env' r = positional_headers r @ map ?g (range_order env')"
    by (simp add: all_headers_def t')
  have m: "mset (all_headers env' r) = mset hs"
    unfolding all' hs using perm by simp
  then have "set (all_headers env' r) = set hs" by (rule mset_eq_setD)
  with b(3) have f: "\<forall>h\<in>set (all_headers env' r). \<not> too_large h" by simp
  have s: "total_size (all_headers env' r) = total_size hs" by (rule total_size_mset [OF m])
  have "build_headers env' r = Inr (all_headers env' r, sz)"
    using b(1,4,5) f s by (simp add: build_headers_Inr_iff)
  with hs perm show ?thesis by (simp add: all')
qed

theorem header_order_witness:
  "build_headers swapped_env example_request =
     Inr (take 11 example_headers @
          [\<lparr>name = ''HTTP_X_FORWARDED_FOR'', value = ''1.2.3.4, 5.6.7.6''\<rparr>,
           \<lparr>name = ''HTTP_ACCEPT'', value = ''*/*''\<rparr>], 282)"
proof -
  have b: "build_headers example_env example_request = Inr (example_headers, 282)"
    by (rule example_build) (simp_all add: example_env_def)
  have k: "key_order (Header example_request) (range_order example_env)"
    by (auto simp: key_order_def example_request_def example_env_def)
  have k': "key_order (Header example_request) (range_order swapped_env)"
    by (auto simp: key_order_def example_request_def swapped_env_def)
  have u: "up swapped_env = up example_env" by (simp add: swapped_env_def)
  have g: "map (\<lambda>k. http_hdr (up example_env) k (the (Header example_request k)))
             (range_order swapped_env) =
           [\<lparr>name = ''HTTP_X_FORWARDED_FOR'', value = ''1.2.3.4, 5.6.7.6''\<rparr>,
            \<lparr>name = ''HTTP_ACCEPT'', value = ''*/*''\<rparr>]"
    by (simp add: swapped_env_def example_env_def example_request_def http_hdr_def
        ascii_upper_def ascii_upper_char_def)
  from header_order [OF k k' u b] show ?thesis
    by (simp add: g example_positional)
qed

text \<open>
  C9 as it is written fails for a request with two inbound headers: the two orders in
  which \<open>range\<close> may visit the keys of the header map give two different header sets.
\<close>

theorem header_order_differs:
  "key_order (Header example_request) (range_order example_env) \<and>
   key_order (Header example_request) (range_order swapped_env) \<and>
   up swapped_env = up example_env \<and>
   build_headers example_env example_request = Inr (example_headers, 282) \<and>
   build_headers swapped_env example_request =
     Inr (take 11 example_headers @
          [\<lparr>name = ''HTTP_X_FORWARDED_FOR'', value = ''1.2.3.4, 5.6.7.6''\<rparr>,
           \<lparr>name = ''HTTP_ACCEPT'', value = ''*/*''\<rparr>], 282) \<and>
   build_headers example_env example_request \<noteq> build_headers swapped_env example_request"
proof -
  have b: "build_headers example_env example_request = Inr (example_headers, 282)"
    by (rule example_build) (simp_all add: example_env_def)
  have k: "key_order (Header example_request) (range_order example_env)"
    by (auto simp: key_order_def example_request_def example_env_def)
  have k': "key_order (Header example_request) (range_order swapped_env)"
    by (auto simp: key_order_def example_request_def swapped_env_def)
  have u: "up swapped_env = up example_env" by (simp add: swapped_env_def)
  have r: "range_Header ascii_upper (Header example_request) [''X-Forwarded-For'', ''Accept'']
     (positional_headers example_request) =
       Inr (take 11 example_headers @
          [\<lparr>name = ''HTTP_X_FORWARDED_FOR'', value = ''1.2.3.4, 5.6.7.6''\<rparr>,
           \<lparr>name = ''HTTP_ACCEPT'', value = ''*/*''\<rparr>])"
    unfolding example_positional
    by (simp add: example_request_def example_headers_def http_hdr_def ascii_upper_def
        ascii_upper_char_def maxSize_def)
  have c: "check_size (take 11 example_headers @
          [\<lparr>name = ''HTTP_X_FORWARDED_FOR'', value = ''1.2.3.4, 5.6.7.6''\<rparr>,
           \<lparr>name = ''HTTP_ACCEPT'', value = ''*/*''\<rparr>]) = Some 282"
    by (simp add: check_size_def example_headers_def maxSize_def)
  have b': "build_headers swapped_env example_request =
     Inr (take 11 example_headers @
          [\<lparr>name = ''HTTP_X_FORWARDED_FOR'', value = ''1.2.3.4, 5.6.7.6''\<rparr>,
           \<lparr>name = ''HTTP_ACCEPT'', value = ''*/*''\<rparr>], 282)"
    by (simp add: build_headers_def example_no_trailer swapped_env_def example_env_def r c
        del: range_Header.simps)
  have d: "example_headers \<noteq> take 11 example_headers @
          [\<lparr>name = ''HTTP_X_FORWARDED_FOR'', value = ''1.2.3.4, 5.6.7.6''\<rparr>,
           \<lparr>name = ''HTTP_ACCEPT'', value = ''*/*''\<rparr>]"
    by (simp add: example_headers_def)
  from b b' k k' u d show ?thesis by simp
qed

end
